theory Spec2Isabelle
  imports Main "HOL-Library.AList" "HOL-Library.List_Lexorder" "HOL-Library.Product_Lexorder"
begin

section \<open>Channel to asset mapper: strings, cells and frames\<close>

text \<open>
  A Python \<open>str\<close> is a sequence of Unicode code points; it is modelled as a list of
  natural numbers, so that \<open>"\xa0"\<close> is the one-element list \<open>[160]\<close> and the order on
  strings is the lexicographic order on code points, as in Python.
\<close>

type_synonym pystr = "nat list"

definition lit :: "string \<Rightarrow> pystr" where
  "lit s = map of_char s"

text \<open>
  \<open>str.isspace\<close> of one code point: the white space code points of CPython
  (\<open>_PyUnicode_IsWhitespace\<close>), which \<open>str.strip()\<close> removes at both ends.
\<close>

definition isspace :: "nat \<Rightarrow> bool" where
  "isspace c \<longleftrightarrow>
     (9 \<le> c \<and> c \<le> 13) \<or> (28 \<le> c \<and> c \<le> 32) \<or> c = 133 \<or> c = 160 \<or> c = 5760 \<or>
     (8192 \<le> c \<and> c \<le> 8202) \<or> c = 8232 \<or> c = 8233 \<or> c = 8239 \<or> c = 8287 \<or> c = 12288"

definition strip :: "pystr \<Rightarrow> pystr" where
  "strip s = rev (dropWhile isspace (rev (dropWhile isspace s)))"

text \<open>\<open>.str.replace("\xa0", " ")\<close>: every non-breaking space becomes an ordinary space.\<close>

definition replace_nbsp :: "pystr \<Rightarrow> pystr" where
  "replace_nbsp s = map (\<lambda>c. if c = 160 then 32 else c) s"

text \<open>
  \<open>str.lower()\<close>. The source only compares lowered text with the ASCII literals
  \<open>"nan"\<close> and \<open>".csv"\<close>, so the model is exact on every code point whose lower case
  contains an ASCII character (the letters A to Z, U+212A KELVIN SIGN, and U+0130, which
  lowers to \<open>i\<close> followed by U+0307) and leaves every other code point as it is.
\<close>

definition lower_cp :: "nat \<Rightarrow> pystr" where
  "lower_cp c =
     (if 65 \<le> c \<and> c \<le> 90 then [c + 32]
      else if c = 8490 then [107]
      else if c = 304 then [105, 775]
      else [c])"

definition lower :: "pystr \<Rightarrow> pystr" where
  "lower s = concat (map lower_cp s)"

text \<open>\<open>str(n)\<close> of a non-negative integer, as the f-strings of the script print it.\<close>

function str_nat :: "nat \<Rightarrow> pystr" where
  "str_nat n = (if n < 10 then [48 + n] else str_nat (n div 10) @ [48 + n mod 10])"
  by pat_completeness auto
termination
  by (relation "measure id") auto

declare str_nat.simps [simp del]

text \<open>
  A cell of a frame read with \<open>dtype=str\<close> is a string or absent (NaN). \<open>.astype(str)\<close>
  turns the absent cell into the text \<open>"nan"\<close>.
\<close>

type_synonym cell = "pystr option"

definition astype_str :: "cell \<Rightarrow> pystr" where
  "astype_str c = (case c of None \<Rightarrow> lit ''nan'' | Some s \<Rightarrow> s)"

text \<open>
  A \<open>DataFrame\<close> with \<open>header=None\<close>: its column count \<open>shape[1]\<close> and its rows. A row
  that holds fewer cells than the frame has columns is padded with absent cells, which
  is what \<open>iloc\<close> reads there.
\<close>

record dataframe =
  shape1 :: nat
  rows :: "cell list list"

definition iloc :: "cell list \<Rightarrow> nat \<Rightarrow> cell" where
  "iloc r i = (if i < length r then r ! i else None)"

text \<open>The cleaning chain \<open>.astype(str).str.replace("\xa0", " ").str.strip()\<close> of one cell.\<close>

definition clean :: "cell \<Rightarrow> pystr" where
  "clean c = strip (replace_nbsp (astype_str c))"

text \<open>
  Exceptions carry the text that \<open>str(e)\<close> prints. \<open>ParserError\<close> is pandas' structural
  parse error; \<open>OtherException\<close> stands for every other subclass of \<open>Exception\<close>.
\<close>

datatype exn = ParserError pystr | OtherException pystr

fun str_exn :: "exn \<Rightarrow> pystr" where
  "str_exn (ParserError m) = m"
| "str_exn (OtherException m) = m"

text \<open>The calls to Streamlit that report to the user, in the order they are made.\<close>

datatype st_call =
  St_error pystr | St_warning pystr | St_info pystr | St_success pystr | St_write pystr

section \<open>Reference table loader\<close>

text \<open>
  A Python \<open>dict\<close> keeps insertion order, and assigning to a key that is present keeps
  its place: an association list under \<open>AList.update\<close>.
\<close>

type_synonym channel_dict = "(pystr \<times> pystr) list"

text \<open>
  The uploaded Excel file is given by what \<open>pd.read_excel(excel_file, header=None,
  dtype=str)\<close> makes of it: an exception or a frame.
\<close>

type_synonym excel_file = "exn + dataframe"

definition load_channel_data :: "excel_file \<Rightarrow> channel_dict \<times> st_call list" where
  "load_channel_data excel_file =
     (case excel_file of
        Inl e \<Rightarrow> ([], [St_error (lit ''Error reading Excel file: '' @ str_exn e)])
      | Inr df \<Rightarrow>
          if shape1 df < 2 then
            ([], [St_error
               (lit ''Excel file must have at least 2 columns: Channel ID and Channel Name'')])
          else
            let channel_ids = map (\<lambda>r. clean (iloc r 0)) (rows df);
                channel_names = map (\<lambda>r. clean (iloc r 1)) (rows df)
            in (fold (\<lambda>(cid, cname) channel_dict.
                        if cid \<noteq> [] \<and> lower cid \<noteq> lit ''nan''
                           \<and> cname \<noteq> [] \<and> lower cname \<noteq> lit ''nan''
                        then AList.update cid cname channel_dict else channel_dict)
                  (zip channel_ids channel_names) [], []))"

section \<open>Resilient chunk reader\<close>

text \<open>
  What iterating a reader or a generator does, step by step: it yields a chunk and goes
  on, it stops, or it raises.
\<close>

datatype 'a gen = Stop | Raise exn | Yield 'a "'a gen"

text \<open>
  \<open>pd.read_csv\<close> belongs to pandas, so an input file is given by what the two calls of
  the source make of its bytes, read from position 0 with \<open>header=None\<close>,
  \<open>skiprows=0\<close>, \<open>dtype=str\<close>, \<open>chunksize=CHUNK_SIZE\<close> and \<open>on_bad_lines="skip"\<close>:
  one pass of the C engine with the comma as separator, and one pass of the Python engine
  with a sniffed separator. An exception raised while the reader is built is a pass that
  raises before its first chunk. The source passes \<open>low_memory=False\<close> to both calls;
  pandas refuses that option for the Python engine with a \<open>ValueError\<close> while the reader
  is built, so for a real file the second pass is of the form \<open>Raise e\<close>. The record
  leaves the second pass open, and what is proved for every second pass holds for that
  one.
\<close>

record file_like =
  c_comma :: "dataframe gen"
  python_sniffed :: "dataframe gen"

datatype engine = C | Python

text \<open>
  \<open>make_reader\<close> seeks to position 0 and calls \<open>pd.read_csv\<close>; the source calls it
  with \<open>engine="c", sep=","\<close> and with \<open>engine="python", sep=None\<close> only.
\<close>

fun make_reader :: "file_like \<Rightarrow> engine \<Rightarrow> pystr option \<Rightarrow> dataframe gen" where
  "make_reader file_like C sep = c_comma file_like"
| "make_reader file_like Python sep = python_sniffed file_like"

text \<open>
  The first attempt: every chunk of the reader is yielded as it comes; when the reader
  is exhausted the generator returns; when it raises, whatever the exception, the
  generator goes on with the fallback reader.
\<close>

fun first_attempt :: "dataframe gen \<Rightarrow> dataframe gen \<Rightarrow> dataframe gen" where
  "first_attempt Stop reader2 = Stop"
| "first_attempt (Raise e) reader2 = reader2"
| "first_attempt (Yield chunk reader) reader2 = Yield chunk (first_attempt reader reader2)"

definition iter_chunks_with_fallback :: "file_like \<Rightarrow> dataframe gen" where
  "iter_chunks_with_fallback file_like =
     first_attempt (make_reader file_like C (Some (lit '','')))
       (make_reader file_like Python None)"

section \<open>Row matcher\<close>

record match =
  asset_id :: pystr
  channel_id :: pystr
  channel_name :: cell

definition ASSET_COL_IDX :: nat where
  "ASSET_COL_IDX = 3"

definition CHANNEL_COL_IDX :: nat where
  "CHANNEL_COL_IDX = 6"

text \<open>
  The body of the loop over the chunks: \<open>None\<close> is \<open>continue\<close>, \<open>Some subset_df\<close> is the
  frame appended to \<open>results\<close>. \<open>Series.map(channel_dict)\<close> gives the absent cell for a
  key the dictionary does not have.
\<close>

definition match_chunk :: "channel_dict \<Rightarrow> dataframe \<Rightarrow> match list option" where
  "match_chunk channel_dict chunk =
     (if shape1 chunk \<le> max ASSET_COL_IDX CHANNEL_COL_IDX then None
      else
        let channel_ids_set = set (map fst channel_dict);
            filtered = filter (\<lambda>r. clean (iloc r CHANNEL_COL_IDX) \<in> channel_ids_set)
                         (rows chunk)
        in if filtered = [] then None
           else Some (map (\<lambda>r. \<lparr>asset_id = clean (iloc r ASSET_COL_IDX),
                                  channel_id = clean (iloc r CHANNEL_COL_IDX),
                                  channel_name =
                                    map_of channel_dict (clean (iloc r CHANNEL_COL_IDX))\<rparr>)
                        filtered))"

text \<open>The loop itself: the list \<open>results\<close> grows, and an exception of the generator ends it.\<close>

fun collect_results ::
  "channel_dict \<Rightarrow> dataframe gen \<Rightarrow> match list list \<Rightarrow> exn + match list list" where
  "collect_results channel_dict Stop results = Inr results"
| "collect_results channel_dict (Raise e) results = Inl e"
| "collect_results channel_dict (Yield chunk chunks) results =
     collect_results channel_dict chunks
       (case match_chunk channel_dict chunk of
          None \<Rightarrow> results
        | Some subset_df \<Rightarrow> results @ [subset_df])"

text \<open>
  The result is \<open>None\<close> or the concatenated frame, together with the warning that was
  shown, if any.
\<close>

definition process_csv_for_channel_assets ::
  "file_like \<Rightarrow> pystr \<Rightarrow> channel_dict \<Rightarrow> match list option \<times> st_call list" where
  "process_csv_for_channel_assets file_like display_name channel_dict =
     (case collect_results channel_dict (iter_chunks_with_fallback file_like) [] of
        Inl e \<Rightarrow>
          (None, [St_warning (lit ''Error reading '' @ display_name @ lit '': '' @ str_exn e)])
      | Inr results \<Rightarrow>
          if results = [] then (None, []) else (Some (concat results), []))"

section \<open>ZIP handling\<close>

text \<open>
  An entry of the archive: its name, and what \<open>z.read(info)\<close> gives, wrapped in
  \<open>io.BytesIO\<close>. The archive is what \<open>zipfile.ZipFile\<close> makes of the uploaded bytes:
  an exception, or the entries of \<open>infolist()\<close> in archive order.
\<close>

record zip_info =
  filename :: pystr
  read :: "exn + file_like"

type_synonym zip_file = "exn + zip_info list"

definition startswith :: "pystr \<Rightarrow> pystr \<Rightarrow> bool" where
  "startswith s prefix \<longleftrightarrow> take (length prefix) s = prefix"

definition endswith :: "pystr \<Rightarrow> pystr \<Rightarrow> bool" where
  "endswith s suffix \<longleftrightarrow>
     length suffix \<le> length s \<and> drop (length s - length suffix) s = suffix"

text \<open>\<open>sub in s\<close> for strings.\<close>

fun contains :: "pystr \<Rightarrow> pystr \<Rightarrow> bool" where
  "contains [] sub \<longleftrightarrow> sub = []"
| "contains (c # s) sub \<longleftrightarrow> startswith (c # s) sub \<or> contains s sub"

text \<open>\<open>ZipInfo.is_dir\<close>: the name ends with a slash.\<close>

definition is_dir :: "zip_info \<Rightarrow> bool" where
  "is_dir info \<longleftrightarrow> endswith (filename info) (lit ''/'')"

text \<open>\<open>os.path.basename\<close> (POSIX): what follows the last slash.\<close>

definition basename :: "pystr \<Rightarrow> pystr" where
  "basename name = rev (takeWhile (\<lambda>c. c \<noteq> 47) (rev name))"

fun extract_entries ::
  "zip_info list \<Rightarrow> (pystr \<times> file_like) list \<Rightarrow> exn + (pystr \<times> file_like) list" where
  "extract_entries [] csv_items = Inr csv_items"
| "extract_entries (info # infos) csv_items =
     (if is_dir info then extract_entries infos csv_items
      else
        let name = filename info; base = basename name
        in if base = [] then extract_entries infos csv_items
           else if startswith base (lit ''__MACOSX'') \<or> contains name (lit ''/__MACOSX'')
             then extract_entries infos csv_items
           else if startswith base (lit ''.'') then extract_entries infos csv_items
           else if endswith (lower base) (lit ''.csv'') then
             (case read info of
                Inl e \<Rightarrow> Inl e
              | Inr data \<Rightarrow> extract_entries infos (csv_items @ [(base, data)]))
           else extract_entries infos csv_items)"

definition extract_csv_filelikes_from_zip ::
  "zip_file \<Rightarrow> exn + (pystr \<times> file_like) list" where
  "extract_csv_filelikes_from_zip zip_bytes =
     (case zip_bytes of
        Inl e \<Rightarrow> Inl e
      | Inr infolist \<Rightarrow> extract_entries infolist [])"

section \<open>Aggregation\<close>

text \<open>
  \<open>drop_duplicates(subset=["Asset ID", "Channel ID"])\<close> keeps, for every pair, the first
  row that has it; \<open>seen\<close> holds the pairs of the rows read so far.
\<close>

fun drop_duplicates_seen :: "(pystr \<times> pystr) set \<Rightarrow> match list \<Rightarrow> match list" where
  "drop_duplicates_seen seen [] = []"
| "drop_duplicates_seen seen (r # rs) =
     (if (asset_id r, channel_id r) \<in> seen then drop_duplicates_seen seen rs
      else r # drop_duplicates_seen (insert (asset_id r, channel_id r) seen) rs)"

definition drop_duplicates :: "match list \<Rightarrow> match list" where
  "drop_duplicates df = drop_duplicates_seen {} df"

text \<open>
  \<open>sort_values(["Channel Name", "Asset ID"])\<close>: ascending, strings compared code point
  by code point, absent names last, rows with equal keys in their previous order.
\<close>

definition na_last :: "cell \<Rightarrow> nat \<times> pystr" where
  "na_last c = (case c of None \<Rightarrow> (1, []) | Some s \<Rightarrow> (0, s))"

definition sort_values :: "match list \<Rightarrow> match list" where
  "sort_values df = sort_key (\<lambda>r. (na_last (channel_name r), asset_id r)) df"

text \<open>Lines 319 to 325 of the script: concatenate, drop duplicates, sort.\<close>

definition final_df :: "match list list \<Rightarrow> match list" where
  "final_df all_results = sort_values (drop_duplicates (concat all_results))"

section \<open>The script\<close>

definition MAX_CSV_FILES :: nat where
  "MAX_CSV_FILES = 12"

text \<open>
  What the user supplied: the Excel file, the directly uploaded CSV files with their
  names, the ZIP archive, and whether the button was pressed.
\<close>

record uploads =
  uploaded_excel :: "excel_file option"
  uploaded_csvs :: "(pystr \<times> file_like) list"
  uploaded_zip :: "zip_file option"
  generate :: bool

text \<open>
  Building \<open>input_csv_items\<close>: \<open>Inl\<close> is a run ended by \<open>st.stop()\<close>, with the calls
  made before it. \<open>st.stop()\<close> raises a \<open>BaseException\<close>, which \<open>except Exception\<close>
  does not catch.
\<close>

definition input_csv_items ::
  "uploads \<Rightarrow> st_call list + ((pystr \<times> file_like) list \<times> st_call list)" where
  "input_csv_items u =
     (case uploaded_zip u of
        Some zip_bytes \<Rightarrow>
          (case extract_csv_filelikes_from_zip zip_bytes of
             Inl e \<Rightarrow> Inl [St_error (lit ''Could not read ZIP file: '' @ str_exn e)]
           | Inr extracted \<Rightarrow>
               if extracted = [] then
                 Inl [St_error (lit ''The ZIP file contains no .csv files.'')]
               else if length extracted > MAX_CSV_FILES then
                 Inl [St_error (lit ''ZIP contains '' @ str_nat (length extracted)
                        @ lit '' CSVs. Maximum allowed: '' @ str_nat MAX_CSV_FILES @ lit ''.'')]
               else
                 Inr (extracted,
                      [St_info (lit ''Found '' @ str_nat (length extracted)
                         @ lit '' CSV files in ZIP.'')]))
      | None \<Rightarrow>
          if uploaded_csvs u \<noteq> [] then Inr (uploaded_csvs u, []) else Inr ([], []))"

text \<open>
  The loop over the input files: \<open>all_results\<close> and the calls made grow file by file. The
  two marks written before the texts are U+2705 and U+26AA.
\<close>

fun process_items ::
  "channel_dict \<Rightarrow> (pystr \<times> file_like) list \<Rightarrow> match list list \<times> st_call list
     \<Rightarrow> match list list \<times> st_call list" where
  "process_items channel_dict [] (all_results, log) = (all_results, log)"
| "process_items channel_dict ((display_name, file_like) # items) (all_results, log) =
     (case process_csv_for_channel_assets file_like display_name channel_dict of
        (res, warned) \<Rightarrow>
          (case res of
             Some df \<Rightarrow>
               if df \<noteq> [] then
                 process_items channel_dict items
                   (all_results @ [df],
                    log @ warned @ [St_write ([9989] @ lit '' Found '' @ str_nat (length df)
                                      @ lit '' matches in '' @ display_name)])
               else
                 process_items channel_dict items
                   (all_results,
                    log @ warned @ [St_write ([9898] @ lit '' No matches in '' @ display_name)])
           | None \<Rightarrow>
               process_items channel_dict items
                 (all_results,
                  log @ warned @ [St_write ([9898] @ lit '' No matches in '' @ display_name)])))"

text \<open>
  The body of the button: the calls made, and the final table when the run reaches it.
  Widgets that only render (spinner, preview, progress bar, metrics, table, download
  button) are left out.
\<close>

definition generate_mapping ::
  "uploads \<Rightarrow> (pystr \<times> file_like) list \<Rightarrow> st_call list \<times> match list option" where
  "generate_mapping u items =
     (case uploaded_excel u of
        None \<Rightarrow> ([St_error (lit ''Please upload the Channel list Excel file first.'')], None)
      | Some excel \<Rightarrow>
          if items = [] then
            ([St_error (lit ''Please upload CSV files or a ZIP containing CSV files.'')], None)
          else
            (case load_channel_data excel of
               (channel_dict, errors) \<Rightarrow>
                 let loaded = errors @ [St_success (lit ''Loaded '' @ str_nat (length channel_dict)
                                          @ lit '' channel IDs with names.'')]
                 in if channel_dict = [] then
                      (loaded @ [St_error (lit ''No valid channel data found in the Excel file.'')],
                       None)
                    else
                      (case process_items channel_dict items ([], loaded) of
                         (all_results, log) \<Rightarrow>
                           if all_results = [] then
                             (log @ [St_warning (lit
                                ''No matching channel IDs found in any of the uploaded files.'')],
                              None)
                           else
                             (log @ [St_success (lit ''### Found ''
                                       @ str_nat (length (final_df all_results))
                                       @ lit '' unique Asset-Channel mappings'')],
                              Some (final_df all_results)))))"

definition script :: "uploads \<Rightarrow> st_call list \<times> match list option" where
  "script u =
     (if uploaded_csvs u \<noteq> [] \<and> length (uploaded_csvs u) > MAX_CSV_FILES then
        ([St_error (lit ''Maximum '' @ str_nat MAX_CSV_FILES
            @ lit '' CSV files allowed. You selected '' @ str_nat (length (uploaded_csvs u))
            @ lit ''.'')], None)
      else
        (case input_csv_items u of
           Inl stopped \<Rightarrow> (stopped, None)
         | Inr (items, log) \<Rightarrow>
             if generate u then
               (case generate_mapping u items of (log2, table) \<Rightarrow> (log @ log2, table))
             else (log, None)))"

section \<open>Observations of a generator\<close>

text \<open>The chunks a generator yields before it ends, and the exception it ends with, if any.\<close>

fun yielded :: "'a gen \<Rightarrow> 'a list" where
  "yielded Stop = []"
| "yielded (Raise e) = []"
| "yielded (Yield x g) = x # yielded g"

fun raised :: "'a gen \<Rightarrow> exn option" where
  "raised Stop = None"
| "raised (Raise e) = Some e"
| "raised (Yield x g) = raised g"

section \<open>Properties of the cleaning chain\<close>

lemma strip_subset: "set (strip s) \<subseteq> set s"
proof -
  have "set (strip s) = set (dropWhile isspace (rev (dropWhile isspace s)))"
    by (simp add: strip_def)
  also have "\<dots> \<subseteq> set (rev (dropWhile isspace s))"
    by (rule set_dropWhileD [THEN subsetI])
  also have "\<dots> \<subseteq> set s"
    using set_dropWhileD by fastforce
  finally show ?thesis .
qed

lemma dropWhile_fixed: "xs = [] \<or> \<not> P (hd xs) \<Longrightarrow> dropWhile P xs = xs"
  by (cases xs) auto

lemma hd_dropWhile_rev:
  "xs = [] \<or> \<not> P (hd xs) \<Longrightarrow> rev (dropWhile P (rev xs)) = [] \<or> \<not> P (hd (rev (dropWhile P (rev xs))))"
proof (induction xs rule: rev_induct)
  case Nil
  then show ?case by simp
next
  case (snoc x xs)
  show ?case
  proof (cases "P x")
    case True
    then have "rev (dropWhile P (rev (xs @ [x]))) = rev (dropWhile P (rev xs))" by simp
    moreover from snoc.prems True have "xs = [] \<or> \<not> P (hd xs)" by (cases xs) auto
    ultimately show ?thesis using snoc.IH by simp
  next
    case False
    then have "rev (dropWhile P (rev (xs @ [x]))) = xs @ [x]" by simp
    then show ?thesis using snoc.prems by simp
  qed
qed

lemma strip_hd: "strip s = [] \<or> \<not> isspace (hd (strip s))"
  unfolding strip_def
  by (rule hd_dropWhile_rev) (metis hd_dropWhile)

lemma strip_last: "strip s = [] \<or> \<not> isspace (last (strip s))"
proof (cases "dropWhile isspace (rev (dropWhile isspace s))")
  case Nil
  then show ?thesis by (simp add: strip_def)
next
  case (Cons a as)
  then have "\<not> isspace a" by (metis hd_dropWhile list.distinct(1) list.sel(1))
  with Cons show ?thesis by (simp add: strip_def)
qed

lemma strip_idem: "strip (strip s) = strip s"
proof -
  have a: "dropWhile isspace (strip s) = strip s"
    using strip_hd [of s] by (intro dropWhile_fixed) auto
  have "dropWhile isspace (rev (strip s)) = rev (strip s)"
    using strip_last [of s] by (intro dropWhile_fixed) (auto simp: hd_rev)
  with a show ?thesis by (simp add: strip_def [of "strip s"])
qed

lemma replace_nbsp_free: "160 \<notin> set (replace_nbsp s)"
  by (auto simp: replace_nbsp_def)

lemma replace_nbsp_fixed: "160 \<notin> set s \<Longrightarrow> replace_nbsp s = s"
  by (induction s) (auto simp: replace_nbsp_def)

lemma clean_nbsp_free: "160 \<notin> set (clean c)"
  using strip_subset [of "replace_nbsp (astype_str c)"] replace_nbsp_free [of "astype_str c"]
  by (auto simp: clean_def)

lemma clean_stripped: "strip (clean c) = clean c"
  by (simp add: clean_def strip_idem)


section \<open>Properties of the loader\<close>

lemma update_entries: "set (AList.update k v al) \<subseteq> insert (k, v) (set al)"
  by (induction al) auto

lemma fold_update_entries:
  "set (fold (\<lambda>(cid, cname) d. if ok cid cname then AList.update cid cname d else d) ps d0)
     \<subseteq> set d0 \<union> {(cid, cname). (cid, cname) \<in> set ps \<and> ok cid cname}"
proof (induction ps arbitrary: d0)
  case Nil
  then show ?case by simp
next
  case (Cons p ps)
  obtain cid cname where p: "p = (cid, cname)" by (cases p)
  show ?case
    using Cons.IH [of "if ok cid cname then AList.update cid cname d0 else d0"]
      update_entries [of cid cname d0]
    by (auto simp: p split: if_splits)
qed

lemma fold_update_map_of:
  "map_of (fold (\<lambda>(cid, cname) d. if ok cid cname then AList.update cid cname d else d) ps d0)
     = map_of d0 ++ map_of (rev (filter (\<lambda>(cid, cname). ok cid cname) ps))"
proof (induction ps arbitrary: d0)
  case Nil
  then show ?case by simp
next
  case (Cons p ps)
  obtain cid cname where p: "p = (cid, cname)" by (cases p)
  show ?case
  proof (cases "ok cid cname")
    case True
    have "map_of (AList.update cid cname d0) ++ m = map_of d0 ++ ([cid \<mapsto> cname] ++ m)" for m
      by (simp add: update_conv' map_add_upd_left fun_eq_iff map_add_def split: option.splits)
    with True show ?thesis
      using Cons.IH [of "AList.update cid cname d0"] by (simp add: p map_add_assoc)
  next
    case False
    then show ?thesis using Cons.IH [of d0] by (simp add: p)
  qed
qed

lemma load_channel_data_frame:
  "2 \<le> shape1 df \<Longrightarrow>
   load_channel_data (Inr df) =
     (fold (\<lambda>(cid, cname) d.
              if cid \<noteq> [] \<and> lower cid \<noteq> lit ''nan'' \<and> cname \<noteq> [] \<and> lower cname \<noteq> lit ''nan''
              then AList.update cid cname d else d)
        (map (\<lambda>r. (clean (iloc r 0), clean (iloc r 1))) (rows df)) [], [])"
  by (simp add: load_channel_data_def zip_map_map zip_same_conv_map Let_def comp_def)

lemma load_channel_data_entries:
  assumes "(k, v) \<in> set (fst (load_channel_data excel_file))"
  shows "\<exists>df r. excel_file = Inr df \<and> r \<in> set (rows df) \<and> k = clean (iloc r 0) \<and> v = clean (iloc r 1)
           \<and> k \<noteq> [] \<and> lower k \<noteq> lit ''nan'' \<and> v \<noteq> [] \<and> lower v \<noteq> lit ''nan''"
proof (cases excel_file)
  case (Inl e)
  with assms show ?thesis by (simp add: load_channel_data_def)
next
  case (Inr df)
  show ?thesis
  proof (cases "2 \<le> shape1 df")
    case False
    with assms Inr show ?thesis by (simp add: load_channel_data_def)
  next
    case True
    let ?ok = "\<lambda>cid cname. cid \<noteq> [] \<and> lower cid \<noteq> lit ''nan'' \<and> cname \<noteq> [] \<and> lower cname \<noteq> lit ''nan''"
    let ?ps = "map (\<lambda>r. (clean (iloc r 0), clean (iloc r 1))) (rows df)"
    from assms Inr True
    have "(k, v) \<in> set (fold (\<lambda>(cid, cname) d. if ?ok cid cname then AList.update cid cname d else d) ?ps [])"
      by (simp add: load_channel_data_frame)
    with fold_update_entries [of ?ok ?ps "[]"]
    have "(k, v) \<in> set ?ps \<and> ?ok k v" by auto
    with Inr show ?thesis by auto
  qed
qed


lemma load_channel_data_quiet: "2 \<le> shape1 df \<Longrightarrow> snd (load_channel_data (Inr df)) = []"
  by (simp add: load_channel_data_frame)

lemma load_channel_data_map_of:
  "2 \<le> shape1 df \<Longrightarrow>
   map_of (fst (load_channel_data (Inr df))) =
     map_of (rev (filter (\<lambda>(cid, cname). cid \<noteq> [] \<and> lower cid \<noteq> lit ''nan''
                                           \<and> cname \<noteq> [] \<and> lower cname \<noteq> lit ''nan'')
                    (map (\<lambda>r. (clean (iloc r 0), clean (iloc r 1))) (rows df))))"
  by (simp add: load_channel_data_frame fold_update_map_of)

text \<open>
  Claim C6. An Excel file that cannot be read, or a frame with fewer than two columns,
  gives the empty dictionary together with one error message; nothing is raised to the
  caller.
\<close>

theorem load_channel_data_invalid:
  "load_channel_data (Inl e) = ([], [St_error (lit ''Error reading Excel file: '' @ str_exn e)])
   \<and> (shape1 df < 2 \<longrightarrow>
        load_channel_data (Inr df) =
          ([], [St_error
             (lit ''Excel file must have at least 2 columns: Channel ID and Channel Name'')]))"
  by (simp add: load_channel_data_def)

theorem load_channel_data_invalid_witness:
  "shape1 \<lparr>shape1 = 1, rows = [[Some (lit ''UC1'')], [None]]\<rparr> < 2
   \<and> load_channel_data (Inr \<lparr>shape1 = 1, rows = [[Some (lit ''UC1'')], [None]]\<rparr>) =
       ([], [St_error
          (lit ''Excel file must have at least 2 columns: Channel ID and Channel Name'')])
   \<and> load_channel_data (Inl (OtherException (lit ''File is not a zip file''))) =
       ([], [St_error (lit ''Error reading Excel file: File is not a zip file'')])"
  using load_channel_data_invalid
    [of "OtherException (lit ''File is not a zip file'')"
        "\<lparr>shape1 = 1, rows = [[Some (lit ''UC1'')], [None]]\<rparr>"]
  by (simp add: lit_def)

text \<open>
  Claim C4. Every key and every value of the dictionary returned by the loader is a
  non-empty string whose lower case is not \<open>"nan"\<close>, holds no non-breaking space and
  is left unchanged by \<open>strip\<close>. For a frame of two columns or more no message is
  produced, and the keys are the cleaned identifiers of the rows that pass the check on
  both sides: every other row is dropped.
\<close>

theorem load_channel_data_invariant:
  "(\<forall>(k, v) \<in> set (fst (load_channel_data excel_file)).
      k \<noteq> [] \<and> lower k \<noteq> lit ''nan'' \<and> 160 \<notin> set k \<and> strip k = k
      \<and> v \<noteq> [] \<and> lower v \<noteq> lit ''nan'' \<and> 160 \<notin> set v \<and> strip v = v)
   \<and> (2 \<le> shape1 df \<longrightarrow>
        snd (load_channel_data (Inr df)) = []
        \<and> fst ` set (fst (load_channel_data (Inr df))) =
            {clean (iloc r 0) | r. r \<in> set (rows df)
               \<and> clean (iloc r 0) \<noteq> [] \<and> lower (clean (iloc r 0)) \<noteq> lit ''nan''
               \<and> clean (iloc r 1) \<noteq> [] \<and> lower (clean (iloc r 1)) \<noteq> lit ''nan''})"
proof (intro conjI impI)
  show "\<forall>(k, v) \<in> set (fst (load_channel_data excel_file)).
      k \<noteq> [] \<and> lower k \<noteq> lit ''nan'' \<and> 160 \<notin> set k \<and> strip k = k
      \<and> v \<noteq> [] \<and> lower v \<noteq> lit ''nan'' \<and> 160 \<notin> set v \<and> strip v = v"
  proof (clarify, intro conjI)
    fix k v
    assume "(k, v) \<in> set (fst (load_channel_data excel_file))"
    then obtain r where kv: "k = clean (iloc r 0)" "v = clean (iloc r 1)"
      and ok: "k \<noteq> []" "lower k \<noteq> lit ''nan''" "v \<noteq> []" "lower v \<noteq> lit ''nan''"
      using load_channel_data_entries by blast
    show "k \<noteq> []" "lower k \<noteq> lit ''nan''" "v \<noteq> []" "lower v \<noteq> lit ''nan''"
      by (rule ok)+
    show "160 \<notin> set k" "160 \<notin> set v" by (simp_all add: kv clean_nbsp_free)
    show "strip k = k" "strip v = v" by (simp_all add: kv clean_stripped)
  qed
next
  assume wide: "2 \<le> shape1 df"
  then show "snd (load_channel_data (Inr df)) = []" by (rule load_channel_data_quiet)
  let ?ok = "\<lambda>(cid, cname). cid \<noteq> [] \<and> lower cid \<noteq> lit ''nan''
                                \<and> cname \<noteq> [] \<and> lower cname \<noteq> lit ''nan''"
  let ?ps = "map (\<lambda>r. (clean (iloc r 0), clean (iloc r 1))) (rows df)"
  have "fst ` set (fst (load_channel_data (Inr df))) = dom (map_of (fst (load_channel_data (Inr df))))"
    by (simp add: dom_map_of_conv_image_fst)
  also have "\<dots> = fst ` set (filter ?ok ?ps)"
    by (simp add: load_channel_data_map_of [OF wide] dom_map_of_conv_image_fst)
  also have "\<dots> = {clean (iloc r 0) | r. r \<in> set (rows df)
               \<and> clean (iloc r 0) \<noteq> [] \<and> lower (clean (iloc r 0)) \<noteq> lit ''nan''
               \<and> clean (iloc r 1) \<noteq> [] \<and> lower (clean (iloc r 1)) \<noteq> lit ''nan''}"
    by (auto simp: image_iff) force
  finally show "fst ` set (fst (load_channel_data (Inr df))) =
            {clean (iloc r 0) | r. r \<in> set (rows df)
               \<and> clean (iloc r 0) \<noteq> [] \<and> lower (clean (iloc r 0)) \<noteq> lit ''nan''
               \<and> clean (iloc r 1) \<noteq> [] \<and> lower (clean (iloc r 1)) \<noteq> lit ''nan''}" .
qed


lemmas loader_eval =
  load_channel_data_def clean_def iloc_def astype_str_def replace_nbsp_def strip_def
  isspace_def lit_def lower_def lower_cp_def

theorem load_channel_data_invariant_witness:
  "(lit ''UC1'', lit ''Alpha'') \<in> set (fst (load_channel_data (Inr
      \<lparr>shape1 = 2, rows = [[Some (lit '' UC1''), Some (lit ''Alpha'' @ [160])],
                            [None, Some (lit ''Beta'')],
                            [Some (lit ''UC2''), Some (lit ''NaN'')]]\<rparr>)))
   \<and> lower (lit ''UC1'') \<noteq> lit ''nan''
   \<and> strip (lit ''Alpha'') = lit ''Alpha'' \<and> 160 \<notin> set (lit ''Alpha'')
   \<and> snd (load_channel_data (Inr
      \<lparr>shape1 = 2, rows = [[Some (lit '' UC1''), Some (lit ''Alpha'' @ [160])],
                            [None, Some (lit ''Beta'')],
                            [Some (lit ''UC2''), Some (lit ''NaN'')]]\<rparr>)) = []"
proof -
  let ?df = "\<lparr>shape1 = 2, rows = [[Some (lit '' UC1''), Some (lit ''Alpha'' @ [160])],
                            [None, Some (lit ''Beta'')],
                            [Some (lit ''UC2''), Some (lit ''NaN'')]]\<rparr>"
  have m: "(lit ''UC1'', lit ''Alpha'') \<in> set (fst (load_channel_data (Inr ?df)))"
    by (simp add: loader_eval)
  have w: "(2::nat) \<le> shape1 ?df" by simp
  note inv = load_channel_data_invariant [of "Inr ?df" ?df]
  from inv m have "lower (lit ''UC1'') \<noteq> lit ''nan''
      \<and> strip (lit ''Alpha'') = lit ''Alpha'' \<and> 160 \<notin> set (lit ''Alpha'')"
    by blast
  moreover from inv w have "snd (load_channel_data (Inr ?df)) = []"
    by blast
  ultimately show ?thesis using m by blast
qed


lemma map_of_filter_miss:
  "\<forall>p \<in> set ps. fst p = k \<longrightarrow> \<not> P p \<Longrightarrow> map_of (rev (filter P ps)) k = None"
  by (auto simp: map_of_eq_None_iff)

text \<open>
  Claim C9. When several rows of the reference table clean to the same identifier, the
  dictionary holds the label of the last row that passes the check: a valid row, after
  which every row with the same cleaned identifier has a label that fails the check,
  decides the label. No message is produced.
\<close>

theorem load_channel_data_last_wins:
  assumes wide: "2 \<le> shape1 df"
    and split: "rows df = before @ r # after"
    and valid: "clean (iloc r 0) \<noteq> []" "lower (clean (iloc r 0)) \<noteq> lit ''nan''"
      "clean (iloc r 1) \<noteq> []" "lower (clean (iloc r 1)) \<noteq> lit ''nan''"
    and later: "\<forall>r' \<in> set after. clean (iloc r' 0) = clean (iloc r 0) \<longrightarrow>
                  clean (iloc r' 1) = [] \<or> lower (clean (iloc r' 1)) = lit ''nan''"
  shows "map_of (fst (load_channel_data (Inr df))) (clean (iloc r 0)) = Some (clean (iloc r 1))
         \<and> snd (load_channel_data (Inr df)) = []"
proof
  let ?ok = "\<lambda>(cid, cname). cid \<noteq> [] \<and> lower cid \<noteq> lit ''nan''
                                \<and> cname \<noteq> [] \<and> lower cname \<noteq> lit ''nan''"
  let ?pair = "\<lambda>r. (clean (iloc r 0), clean (iloc r 1))"
  let ?k = "clean (iloc r 0)"
  have miss: "map_of (rev (filter ?ok (map ?pair after))) ?k = None"
    using later by (intro map_of_filter_miss) auto
  have "map_of (fst (load_channel_data (Inr df))) ?k
          = map_of (rev (filter ?ok (map ?pair (before @ r # after)))) ?k"
    by (simp only: load_channel_data_map_of [OF wide] split)
  also have "\<dots> = map_of (rev (filter ?ok (map ?pair after)) @ ?pair r # rev (filter ?ok (map ?pair before))) ?k"
    using valid by simp
  also have "\<dots> = Some (clean (iloc r 1))"
    using miss by (simp add: map_add_def)
  finally show "map_of (fst (load_channel_data (Inr df))) ?k = Some (clean (iloc r 1))" .
  show "snd (load_channel_data (Inr df)) = []" by (rule load_channel_data_quiet [OF wide])
qed


theorem load_channel_data_last_wins_witness:
  "map_of (fst (load_channel_data (Inr
      \<lparr>shape1 = 2, rows = [[Some (lit ''UC1''), Some (lit ''Old'')],
                            [Some (lit ''UC1 ''), Some (lit ''New'')],
                            [Some (lit ''UC1''), None]]\<rparr>))) (lit ''UC1'') = Some (lit ''New'')
   \<and> snd (load_channel_data (Inr
      \<lparr>shape1 = 2, rows = [[Some (lit ''UC1''), Some (lit ''Old'')],
                            [Some (lit ''UC1 ''), Some (lit ''New'')],
                            [Some (lit ''UC1''), None]]\<rparr>)) = []"
proof -
  let ?r = "[Some (lit ''UC1 ''), Some (lit ''New'')]"
  let ?df = "\<lparr>shape1 = 2, rows = [[Some (lit ''UC1''), Some (lit ''Old'')], ?r,
                                     [Some (lit ''UC1''), None]]\<rparr>"
  have k: "clean (iloc ?r 0) = lit ''UC1''" and v: "clean (iloc ?r 1) = lit ''New''"
    by (simp_all add: loader_eval)
  have "map_of (fst (load_channel_data (Inr ?df))) (clean (iloc ?r 0)) = Some (clean (iloc ?r 1))
         \<and> snd (load_channel_data (Inr ?df)) = []"
  proof (rule load_channel_data_last_wins [of ?df "[[Some (lit ''UC1''), Some (lit ''Old'')]]" ?r
          "[[Some (lit ''UC1''), None]]"])
    show "2 \<le> shape1 ?df" by simp
    show "rows ?df = [[Some (lit ''UC1''), Some (lit ''Old'')]] @ ?r # [[Some (lit ''UC1''), None]]"
      by simp
    show "clean (iloc ?r 0) \<noteq> []" "lower (clean (iloc ?r 0)) \<noteq> lit ''nan''"
      "clean (iloc ?r 1) \<noteq> []" "lower (clean (iloc ?r 1)) \<noteq> lit ''nan''"
      by (simp_all add: loader_eval)
    show "\<forall>r' \<in> set [[Some (lit ''UC1''), None]]. clean (iloc r' 0) = clean (iloc ?r 0) \<longrightarrow>
                  clean (iloc r' 1) = [] \<or> lower (clean (iloc r' 1)) = lit ''nan''"
      by (simp add: loader_eval)
  qed
  then show ?thesis by (simp only: k v)
qed


section \<open>Properties of the matcher\<close>

lemma match_chunk_rows:
  "max ASSET_COL_IDX CHANNEL_COL_IDX < shape1 chunk \<Longrightarrow>
   (case match_chunk channel_dict chunk of None \<Rightarrow> [] | Some subset_df \<Rightarrow> subset_df) =
     map (\<lambda>r. \<lparr>asset_id = clean (iloc r ASSET_COL_IDX),
                channel_id = clean (iloc r CHANNEL_COL_IDX),
                channel_name = map_of channel_dict (clean (iloc r CHANNEL_COL_IDX))\<rparr>)
       (filter (\<lambda>r. clean (iloc r CHANNEL_COL_IDX) \<in> fst ` set channel_dict) (rows chunk))"
  by (simp add: match_chunk_def Let_def max_def)

lemma match_chunk_named:
  assumes "match_chunk channel_dict chunk = Some subset_df" and "m \<in> set subset_df"
  shows "channel_id m \<in> fst ` set channel_dict
         \<and> channel_name m = map_of channel_dict (channel_id m) \<and> channel_name m \<noteq> None"
proof -
  define P where "P = (\<lambda>r. clean (iloc r CHANNEL_COL_IDX) \<in> fst ` set channel_dict)"
  define f where "f = (\<lambda>r. \<lparr>asset_id = clean (iloc r ASSET_COL_IDX),
                channel_id = clean (iloc r CHANNEL_COL_IDX),
                channel_name = map_of channel_dict (clean (iloc r CHANNEL_COL_IDX))\<rparr>)"
  from assms(1) have "subset_df = map f (filter P (rows chunk))"
    by (simp add: match_chunk_def Let_def P_def f_def split: if_splits)
  with assms(2) obtain r where "P r" and "m = f r" by auto
  then have "channel_id m \<in> fst ` set channel_dict"
    and "channel_name m = map_of channel_dict (channel_id m)"
    by (simp_all add: P_def f_def)
  moreover from this have "channel_name m \<noteq> None"
    by (simp add: map_of_eq_None_iff)
  ultimately show ?thesis by simp
qed

lemma collect_results_eq:
  "collect_results channel_dict g results =
     (case raised g of
        Some e \<Rightarrow> Inl e
      | None \<Rightarrow> Inr (results @ List.map_filter (match_chunk channel_dict) (yielded g)))"
  by (induction g arbitrary: results) (auto simp: List.map_filter_simps split: option.splits)

lemma clean_absent: "clean None = lit ''nan''"
  by (simp add: loader_eval)

lemma lower_nan: "lower (lit ''nan'') = lit ''nan''"
  by (simp add: loader_eval)

lemma loaded_keys_not_blank:
  assumes "c = None \<or> clean c = []"
  shows "clean c \<notin> fst ` set (fst (load_channel_data excel_file))"
proof
  assume "clean c \<in> fst ` set (fst (load_channel_data excel_file))"
  then obtain v where "(clean c, v) \<in> set (fst (load_channel_data excel_file))" by auto
  then have "clean c \<noteq> []" "lower (clean c) \<noteq> lit ''nan''"
    using load_channel_data_entries by blast+
  with assms show False by (auto simp: clean_absent lower_nan)
qed

lemma match_chunk_blank:
  assumes "\<forall>r \<in> set (rows chunk). iloc r CHANNEL_COL_IDX = None \<or> clean (iloc r CHANNEL_COL_IDX) = []"
  shows "match_chunk (fst (load_channel_data excel_file)) chunk = None"
proof -
  have "filter (\<lambda>r. clean (iloc r CHANNEL_COL_IDX) \<in> fst ` set (fst (load_channel_data excel_file)))
          (rows chunk) = []"
    using assms loaded_keys_not_blank by (auto simp: filter_empty_conv)
  then show ?thesis by (simp add: match_chunk_def Let_def)
qed


lemma process_csv_blank:
  assumes "raised (iter_chunks_with_fallback file_like) = None"
    and "\<forall>chunk \<in> set (yielded (iter_chunks_with_fallback file_like)).
           \<forall>r \<in> set (rows chunk). iloc r CHANNEL_COL_IDX = None \<or> clean (iloc r CHANNEL_COL_IDX) = []"
  shows "process_csv_for_channel_assets file_like display_name (fst (load_channel_data excel_file))
           = (None, [])"
proof -
  have "List.map_filter (match_chunk (fst (load_channel_data excel_file)))
          (yielded (iter_chunks_with_fallback file_like)) = []"
    using assms(2) match_chunk_blank
    by (simp add: List.map_filter_def filter_empty_conv)
  with assms(1) show ?thesis
    by (simp add: process_csv_for_channel_assets_def collect_results_eq)
qed

lemma match_chunk_cases:
  "match_chunk channel_dict chunk =
     (let found = (if shape1 chunk \<le> max ASSET_COL_IDX CHANNEL_COL_IDX then []
                   else map (\<lambda>r. \<lparr>asset_id = clean (iloc r ASSET_COL_IDX),
                                      channel_id = clean (iloc r CHANNEL_COL_IDX),
                                      channel_name =
                                        map_of channel_dict (clean (iloc r CHANNEL_COL_IDX))\<rparr>)
                          (filter (\<lambda>r. clean (iloc r CHANNEL_COL_IDX) \<in> fst ` set channel_dict)
                             (rows chunk)))
      in if found = [] then None else Some found)"
  by (simp add: match_chunk_def Let_def)

lemma map_filter_nonempty_concat:
  assumes "\<And>x. f x = (if g x = [] then None else Some (g x))"
  shows "concat (List.map_filter f xs) = concat (map g xs)
         \<and> (List.map_filter f xs = [] \<longleftrightarrow> concat (map g xs) = [])"
proof (induction xs)
  case Nil
  then show ?case by simp
next
  case (Cons x xs)
  then show ?case by (simp add: assms)
qed

lemma process_csv_completed:
  assumes "raised (iter_chunks_with_fallback file_like) = None"
  shows "process_csv_for_channel_assets file_like display_name channel_dict =
     (let found = concat (map
            (\<lambda>chunk. if shape1 chunk \<le> max ASSET_COL_IDX CHANNEL_COL_IDX then []
                      else map (\<lambda>r. \<lparr>asset_id = clean (iloc r ASSET_COL_IDX),
                                         channel_id = clean (iloc r CHANNEL_COL_IDX),
                                         channel_name =
                                           map_of channel_dict (clean (iloc r CHANNEL_COL_IDX))\<rparr>)
                             (filter (\<lambda>r. clean (iloc r CHANNEL_COL_IDX) \<in> fst ` set channel_dict)
                                (rows chunk)))
            (yielded (iter_chunks_with_fallback file_like)))
      in (if found = [] then None else Some found, []))"
proof -
  define g :: "dataframe \<Rightarrow> match list"
    where "g = (\<lambda>chunk. if shape1 chunk \<le> max ASSET_COL_IDX CHANNEL_COL_IDX then []
                      else map (\<lambda>r. \<lparr>asset_id = clean (iloc r ASSET_COL_IDX),
                                         channel_id = clean (iloc r CHANNEL_COL_IDX),
                                         channel_name =
                                           map_of channel_dict (clean (iloc r CHANNEL_COL_IDX))\<rparr>)
                             (filter (\<lambda>r. clean (iloc r CHANNEL_COL_IDX) \<in> fst ` set channel_dict)
                                (rows chunk)))"
  let ?chunks = "yielded (iter_chunks_with_fallback file_like)"
  have body: "match_chunk channel_dict chunk = (if g chunk = [] then None else Some (g chunk))"
    for chunk
    unfolding g_def by (simp only: match_chunk_cases Let_def)
  note parts = map_filter_nonempty_concat [of "match_chunk channel_dict" g ?chunks, OF body]
  have "process_csv_for_channel_assets file_like display_name channel_dict =
      (if List.map_filter (match_chunk channel_dict) ?chunks = [] then None
       else Some (concat (List.map_filter (match_chunk channel_dict) ?chunks)), [])"
    using assms by (simp add: process_csv_for_channel_assets_def collect_results_eq)
  also have "\<dots> = (if concat (map g ?chunks) = [] then None else Some (concat (map g ?chunks)), [])"
    using parts by simp
  finally show ?thesis
    unfolding g_def by (simp only: Let_def)
qed

text \<open>
  Claim C2. A chunk whose column count covers positions 3 and 6 gives exactly one match
  record for each row whose cleaned cell at position 6 is a key of the dictionary, in row
  order, and none for any other row; a file whose chunks are all read returns exactly
  these records, chunk after chunk, and \<open>None\<close> when there is none. With the dictionary
  of the loader, a chunk whose cells at position 6 are all absent or blank after cleaning
  gives no record, and a file made of such chunks is processed to no result without a
  warning.
\<close>

theorem match_chunk_exact:
  "(ASSET_COL_IDX < shape1 chunk \<and> CHANNEL_COL_IDX < shape1 chunk \<longrightarrow>
      (case match_chunk channel_dict chunk of None \<Rightarrow> [] | Some subset_df \<Rightarrow> subset_df) =
        map (\<lambda>r. \<lparr>asset_id = clean (iloc r ASSET_COL_IDX),
                   channel_id = clean (iloc r CHANNEL_COL_IDX),
                   channel_name = map_of channel_dict (clean (iloc r CHANNEL_COL_IDX))\<rparr>)
          (filter (\<lambda>r. clean (iloc r CHANNEL_COL_IDX) \<in> fst ` set channel_dict) (rows chunk))
      \<and> length (case match_chunk channel_dict chunk of None \<Rightarrow> [] | Some subset_df \<Rightarrow> subset_df) =
          length (filter (\<lambda>r. clean (iloc r CHANNEL_COL_IDX) \<in> fst ` set channel_dict)
                    (rows chunk)))
   \<and> (raised (iter_chunks_with_fallback file_like) = None \<longrightarrow>
        process_csv_for_channel_assets file_like display_name channel_dict =
          (let found = concat (map
                 (\<lambda>chunk. if shape1 chunk \<le> max ASSET_COL_IDX CHANNEL_COL_IDX then []
                           else map (\<lambda>r. \<lparr>asset_id = clean (iloc r ASSET_COL_IDX),
                                              channel_id = clean (iloc r CHANNEL_COL_IDX),
                                              channel_name =
                                                map_of channel_dict
                                                  (clean (iloc r CHANNEL_COL_IDX))\<rparr>)
                                  (filter (\<lambda>r. clean (iloc r CHANNEL_COL_IDX)
                                                  \<in> fst ` set channel_dict)
                                     (rows chunk)))
                 (yielded (iter_chunks_with_fallback file_like)))
           in (if found = [] then None else Some found, [])))
   \<and> ((\<forall>r \<in> set (rows chunk).
          iloc r CHANNEL_COL_IDX = None \<or> clean (iloc r CHANNEL_COL_IDX) = []) \<longrightarrow>
        match_chunk (fst (load_channel_data excel_file)) chunk = None)
   \<and> (raised (iter_chunks_with_fallback file_like) = None
        \<and> (\<forall>chunk \<in> set (yielded (iter_chunks_with_fallback file_like)).
             \<forall>r \<in> set (rows chunk).
               iloc r CHANNEL_COL_IDX = None \<or> clean (iloc r CHANNEL_COL_IDX) = []) \<longrightarrow>
        process_csv_for_channel_assets file_like display_name (fst (load_channel_data excel_file))
          = (None, []))"
proof (intro conjI impI)
  assume "ASSET_COL_IDX < shape1 chunk \<and> CHANNEL_COL_IDX < shape1 chunk"
  then have wide: "max ASSET_COL_IDX CHANNEL_COL_IDX < shape1 chunk" by simp
  show "(case match_chunk channel_dict chunk of None \<Rightarrow> [] | Some subset_df \<Rightarrow> subset_df) =
        map (\<lambda>r. \<lparr>asset_id = clean (iloc r ASSET_COL_IDX),
                   channel_id = clean (iloc r CHANNEL_COL_IDX),
                   channel_name = map_of channel_dict (clean (iloc r CHANNEL_COL_IDX))\<rparr>)
          (filter (\<lambda>r. clean (iloc r CHANNEL_COL_IDX) \<in> fst ` set channel_dict) (rows chunk))"
    by (rule match_chunk_rows [OF wide])
  then show "length (case match_chunk channel_dict chunk of None \<Rightarrow> [] | Some subset_df \<Rightarrow> subset_df) =
          length (filter (\<lambda>r. clean (iloc r CHANNEL_COL_IDX) \<in> fst ` set channel_dict)
                    (rows chunk))"
    by (simp only: length_map)
next
  assume "raised (iter_chunks_with_fallback file_like) = None"
  then show "process_csv_for_channel_assets file_like display_name channel_dict =
          (let found = concat (map
                 (\<lambda>chunk. if shape1 chunk \<le> max ASSET_COL_IDX CHANNEL_COL_IDX then []
                           else map (\<lambda>r. \<lparr>asset_id = clean (iloc r ASSET_COL_IDX),
                                              channel_id = clean (iloc r CHANNEL_COL_IDX),
                                              channel_name =
                                                map_of channel_dict
                                                  (clean (iloc r CHANNEL_COL_IDX))\<rparr>)
                                  (filter (\<lambda>r. clean (iloc r CHANNEL_COL_IDX)
                                                  \<in> fst ` set channel_dict)
                                     (rows chunk)))
                 (yielded (iter_chunks_with_fallback file_like)))
           in (if found = [] then None else Some found, []))"
    by (rule process_csv_completed)
next
  assume "\<forall>r \<in> set (rows chunk).
          iloc r CHANNEL_COL_IDX = None \<or> clean (iloc r CHANNEL_COL_IDX) = []"
  then show "match_chunk (fst (load_channel_data excel_file)) chunk = None"
    by (rule match_chunk_blank)
next
  assume "raised (iter_chunks_with_fallback file_like) = None
        \<and> (\<forall>chunk \<in> set (yielded (iter_chunks_with_fallback file_like)).
             \<forall>r \<in> set (rows chunk).
               iloc r CHANNEL_COL_IDX = None \<or> clean (iloc r CHANNEL_COL_IDX) = [])"
  then show "process_csv_for_channel_assets file_like display_name (fst (load_channel_data excel_file))
          = (None, [])"
    using process_csv_blank by blast
qed


lemmas matcher_eval =
  match_chunk_def ASSET_COL_IDX_def CHANNEL_COL_IDX_def Let_def

theorem match_chunk_exact_witness:
  "ASSET_COL_IDX < shape1 \<lparr>shape1 = 7, rows =
         [[None, None, None, Some (lit '' A1''), None, None, Some (lit ''UC'' @ [160] @ lit ''1 '')],
          [None, None, None, Some (lit ''A2''), None, None, None],
          [None, None, None, Some (lit ''A3''), None, None, Some (lit ''UC9'')]]\<rparr> \<and> CHANNEL_COL_IDX < shape1 \<lparr>shape1 = 7, rows =
         [[None, None, None, Some (lit '' A1''), None, None, Some (lit ''UC'' @ [160] @ lit ''1 '')],
          [None, None, None, Some (lit ''A2''), None, None, None],
          [None, None, None, Some (lit ''A3''), None, None, Some (lit ''UC9'')]]\<rparr>
   \<and> (case match_chunk (fst (load_channel_data (Inr \<lparr>shape1 = 2, rows =
         [[Some (lit ''UC'' @ [160] @ lit ''1''), Some (lit ''Alpha'')]]\<rparr>))) \<lparr>shape1 = 7, rows =
         [[None, None, None, Some (lit '' A1''), None, None, Some (lit ''UC'' @ [160] @ lit ''1 '')],
          [None, None, None, Some (lit ''A2''), None, None, None],
          [None, None, None, Some (lit ''A3''), None, None, Some (lit ''UC9'')]]\<rparr> of
         None \<Rightarrow> [] | Some subset_df \<Rightarrow> subset_df) = [\<lparr>asset_id = lit ''A1'', channel_id = lit ''UC 1'', channel_name = Some (lit ''Alpha'')\<rparr>]
   \<and> raised (iter_chunks_with_fallback \<lparr>c_comma = Yield \<lparr>shape1 = 7, rows =
         [[None, None, None, Some (lit '' A1''), None, None, Some (lit ''UC'' @ [160] @ lit ''1 '')],
          [None, None, None, Some (lit ''A2''), None, None, None],
          [None, None, None, Some (lit ''A3''), None, None, Some (lit ''UC9'')]]\<rparr> (Yield \<lparr>shape1 = 7, rows =
         [[None, None, None, Some (lit ''A4''), None, None, None],
          [None, None, None, Some (lit ''A5''), None, None, Some ([160] @ lit '' '')]]\<rparr> Stop),
      python_sniffed = Raise (OtherException (lit ''The '' @ [39] @ lit ''low_memory'' @ [39]
         @ lit '' option is not supported with the '' @ [39] @ lit ''python'' @ [39]
         @ lit '' engine''))\<rparr>) = None
   \<and> process_csv_for_channel_assets \<lparr>c_comma = Yield \<lparr>shape1 = 7, rows =
         [[None, None, None, Some (lit '' A1''), None, None, Some (lit ''UC'' @ [160] @ lit ''1 '')],
          [None, None, None, Some (lit ''A2''), None, None, None],
          [None, None, None, Some (lit ''A3''), None, None, Some (lit ''UC9'')]]\<rparr> (Yield \<lparr>shape1 = 7, rows =
         [[None, None, None, Some (lit ''A4''), None, None, None],
          [None, None, None, Some (lit ''A5''), None, None, Some ([160] @ lit '' '')]]\<rparr> Stop),
      python_sniffed = Raise (OtherException (lit ''The '' @ [39] @ lit ''low_memory'' @ [39]
         @ lit '' option is not supported with the '' @ [39] @ lit ''python'' @ [39]
         @ lit '' engine''))\<rparr> (lit ''report.csv'') (fst (load_channel_data (Inr \<lparr>shape1 = 2, rows =
         [[Some (lit ''UC'' @ [160] @ lit ''1''), Some (lit ''Alpha'')]]\<rparr>)))
       = (Some [\<lparr>asset_id = lit ''A1'', channel_id = lit ''UC 1'', channel_name = Some (lit ''Alpha'')\<rparr>], [])
   \<and> iloc [None, None, None, Some (lit ''A4''), None, None, None] CHANNEL_COL_IDX = None
   \<and> clean (iloc [None, None, None, Some (lit ''A5''), None, None, Some ([160] @ lit '' '')]
         CHANNEL_COL_IDX) = []
   \<and> match_chunk (fst (load_channel_data (Inr \<lparr>shape1 = 2, rows =
         [[Some (lit ''UC'' @ [160] @ lit ''1''), Some (lit ''Alpha'')]]\<rparr>))) \<lparr>shape1 = 7, rows =
         [[None, None, None, Some (lit ''A4''), None, None, None],
          [None, None, None, Some (lit ''A5''), None, None, Some ([160] @ lit '' '')]]\<rparr> = None
   \<and> raised (iter_chunks_with_fallback \<lparr>c_comma = Yield \<lparr>shape1 = 7, rows =
         [[None, None, None, Some (lit ''A4''), None, None, None],
          [None, None, None, Some (lit ''A5''), None, None, Some ([160] @ lit '' '')]]\<rparr> Stop,
      python_sniffed = Raise (OtherException (lit ''The '' @ [39] @ lit ''low_memory'' @ [39]
         @ lit '' option is not supported with the '' @ [39] @ lit ''python'' @ [39]
         @ lit '' engine''))\<rparr>) = None
   \<and> process_csv_for_channel_assets \<lparr>c_comma = Yield \<lparr>shape1 = 7, rows =
         [[None, None, None, Some (lit ''A4''), None, None, None],
          [None, None, None, Some (lit ''A5''), None, None, Some ([160] @ lit '' '')]]\<rparr> Stop,
      python_sniffed = Raise (OtherException (lit ''The '' @ [39] @ lit ''low_memory'' @ [39]
         @ lit '' option is not supported with the '' @ [39] @ lit ''python'' @ [39]
         @ lit '' engine''))\<rparr>
        (lit ''report.csv'') (fst (load_channel_data (Inr \<lparr>shape1 = 2, rows =
         [[Some (lit ''UC'' @ [160] @ lit ''1''), Some (lit ''Alpha'')]]\<rparr>))) = (None, [])"
proof -
  let ?chunk = "\<lparr>shape1 = 7, rows =
         [[None, None, None, Some (lit '' A1''), None, None, Some (lit ''UC'' @ [160] @ lit ''1 '')],
          [None, None, None, Some (lit ''A2''), None, None, None],
          [None, None, None, Some (lit ''A3''), None, None, Some (lit ''UC9'')]]\<rparr>"
  let ?blank = "\<lparr>shape1 = 7, rows =
         [[None, None, None, Some (lit ''A4''), None, None, None],
          [None, None, None, Some (lit ''A5''), None, None, Some ([160] @ lit '' '')]]\<rparr>"
  let ?file = "\<lparr>c_comma = Yield \<lparr>shape1 = 7, rows =
         [[None, None, None, Some (lit '' A1''), None, None, Some (lit ''UC'' @ [160] @ lit ''1 '')],
          [None, None, None, Some (lit ''A2''), None, None, None],
          [None, None, None, Some (lit ''A3''), None, None, Some (lit ''UC9'')]]\<rparr> (Yield \<lparr>shape1 = 7, rows =
         [[None, None, None, Some (lit ''A4''), None, None, None],
          [None, None, None, Some (lit ''A5''), None, None, Some ([160] @ lit '' '')]]\<rparr> Stop),
      python_sniffed = Raise (OtherException (lit ''The '' @ [39] @ lit ''low_memory'' @ [39]
         @ lit '' option is not supported with the '' @ [39] @ lit ''python'' @ [39]
         @ lit '' engine''))\<rparr>"
  let ?blank_file = "\<lparr>c_comma = Yield \<lparr>shape1 = 7, rows =
         [[None, None, None, Some (lit ''A4''), None, None, None],
          [None, None, None, Some (lit ''A5''), None, None, Some ([160] @ lit '' '')]]\<rparr> Stop,
      python_sniffed = Raise (OtherException (lit ''The '' @ [39] @ lit ''low_memory'' @ [39]
         @ lit '' option is not supported with the '' @ [39] @ lit ''python'' @ [39]
         @ lit '' engine''))\<rparr>"
  let ?excel = "(Inr \<lparr>shape1 = 2, rows =
         [[Some (lit ''UC'' @ [160] @ lit ''1''), Some (lit ''Alpha'')]]\<rparr>) :: excel_file"
  have dict: "fst (load_channel_data ?excel) = [(lit ''UC 1'', lit ''Alpha'')]"
    by (simp add: loader_eval)
  note inst = match_chunk_exact [where chunk = ?chunk
      and channel_dict = "fst (load_channel_data ?excel)"
      and file_like = ?file and display_name = "lit ''report.csv''"]
  note inst_blank = match_chunk_exact [where chunk = ?blank and excel_file = ?excel
      and file_like = ?blank_file and display_name = "lit ''report.csv''"]
  have wide: "ASSET_COL_IDX < shape1 ?chunk \<and> CHANNEL_COL_IDX < shape1 ?chunk"
    by (simp add: ASSET_COL_IDX_def CHANNEL_COL_IDX_def)
  have blank: "\<forall>r \<in> set (rows ?blank).
         iloc r CHANNEL_COL_IDX = None \<or> clean (iloc r CHANNEL_COL_IDX) = []"
    by (simp add: CHANNEL_COL_IDX_def loader_eval)
  have completes: "raised (iter_chunks_with_fallback ?file) = None"
    by (simp add: iter_chunks_with_fallback_def)
  have ends: "raised (iter_chunks_with_fallback ?blank_file) = None"
    by (simp add: iter_chunks_with_fallback_def)
  have chunks: "yielded (iter_chunks_with_fallback ?blank_file) = [?blank]"
    by (simp add: iter_chunks_with_fallback_def)
  from inst wide
  have "(case match_chunk (fst (load_channel_data ?excel)) ?chunk of
           None \<Rightarrow> [] | Some subset_df \<Rightarrow> subset_df) =
        map (\<lambda>r. \<lparr>asset_id = clean (iloc r ASSET_COL_IDX),
                   channel_id = clean (iloc r CHANNEL_COL_IDX),
                   channel_name = map_of (fst (load_channel_data ?excel))
                                    (clean (iloc r CHANNEL_COL_IDX))\<rparr>)
          (filter (\<lambda>r. clean (iloc r CHANNEL_COL_IDX) \<in> fst ` set (fst (load_channel_data ?excel)))
             (rows ?chunk))"
    by blast
  also have "\<dots> = [\<lparr>asset_id = lit ''A1'', channel_id = lit ''UC 1'', channel_name = Some (lit ''Alpha'')\<rparr>]"
    unfolding dict by (simp add: ASSET_COL_IDX_def CHANNEL_COL_IDX_def loader_eval)
  finally have first: "(case match_chunk (fst (load_channel_data ?excel)) ?chunk of
      None \<Rightarrow> [] | Some subset_df \<Rightarrow> subset_df) = [\<lparr>asset_id = lit ''A1'', channel_id = lit ''UC 1'', channel_name = Some (lit ''Alpha'')\<rparr>]" .
  from inst completes
  have "process_csv_for_channel_assets ?file (lit ''report.csv'') (fst (load_channel_data ?excel)) =
          (let found = concat (map
                 (\<lambda>chunk. if shape1 chunk \<le> max ASSET_COL_IDX CHANNEL_COL_IDX then []
                           else map (\<lambda>r. \<lparr>asset_id = clean (iloc r ASSET_COL_IDX),
                                              channel_id = clean (iloc r CHANNEL_COL_IDX),
                                              channel_name =
                                                map_of (fst (load_channel_data ?excel))
                                                  (clean (iloc r CHANNEL_COL_IDX))\<rparr>)
                                  (filter (\<lambda>r. clean (iloc r CHANNEL_COL_IDX)
                                                  \<in> fst ` set (fst (load_channel_data ?excel)))
                                     (rows chunk)))
                 (yielded (iter_chunks_with_fallback ?file)))
           in (if found = [] then None else Some found, []))"
    by blast
  also have "\<dots> = (Some [\<lparr>asset_id = lit ''A1'', channel_id = lit ''UC 1'', channel_name = Some (lit ''Alpha'')\<rparr>], [])"
    unfolding dict
    by (simp add: iter_chunks_with_fallback_def ASSET_COL_IDX_def CHANNEL_COL_IDX_def loader_eval)
  finally have whole: "process_csv_for_channel_assets ?file (lit ''report.csv'')
      (fst (load_channel_data ?excel)) = (Some [\<lparr>asset_id = lit ''A1'', channel_id = lit ''UC 1'', channel_name = Some (lit ''Alpha'')\<rparr>], [])" .
  from inst_blank blank
  have second: "match_chunk (fst (load_channel_data ?excel)) ?blank = None"
    by blast
  from blank have "\<forall>chunk \<in> set (yielded (iter_chunks_with_fallback ?blank_file)).
             \<forall>r \<in> set (rows chunk).
               iloc r CHANNEL_COL_IDX = None \<or> clean (iloc r CHANNEL_COL_IDX) = []"
    by (simp only: chunks list.set ball_simps)
  with inst_blank ends
  have third: "process_csv_for_channel_assets ?blank_file (lit ''report.csv'')
      (fst (load_channel_data ?excel)) = (None, [])"
    by blast
  have absent: "iloc [None, None, None, Some (lit ''A4''), None, None, None] CHANNEL_COL_IDX = None"
    by (simp add: CHANNEL_COL_IDX_def iloc_def)
  have cleaned: "clean (iloc [None, None, None, Some (lit ''A5''), None, None,
      Some ([160] @ lit '' '')] CHANNEL_COL_IDX) = []"
    by (simp add: CHANNEL_COL_IDX_def loader_eval)
  from wide first completes whole absent cleaned second ends third show ?thesis by blast
qed

section \<open>Properties of the aggregation\<close>

lemma drop_duplicates_seen_filter:
  "filter (\<lambda>r. (asset_id r, channel_id r) = p) (drop_duplicates_seen seen df) =
     (if p \<in> seen then []
      else case find (\<lambda>r. (asset_id r, channel_id r) = p) df of None \<Rightarrow> [] | Some r \<Rightarrow> [r])"
proof (induction df arbitrary: seen)
  case Nil
  then show ?case by simp
next
  case (Cons r rs)
  show ?case
  proof (cases "(asset_id r, channel_id r) \<in> seen")
    case True
    then show ?thesis using Cons.IH [of seen] by auto
  next
    case False
    then show ?thesis
      using Cons.IH [of "insert (asset_id r, channel_id r) seen"] by auto
  qed
qed

lemma drop_duplicates_filter:
  "filter (\<lambda>r. (asset_id r, channel_id r) = p) (drop_duplicates df) =
     (case find (\<lambda>r. (asset_id r, channel_id r) = p) df of None \<Rightarrow> [] | Some r \<Rightarrow> [r])"
  by (simp add: drop_duplicates_def drop_duplicates_seen_filter)

lemma sort_values_filter: "filter P (sort_values df) = sort_values (filter P df)"
  by (simp add: sort_values_def filter_sort)

lemma sort_values_short: "sort_values [] = []" "sort_values [r] = [r]"
  by (simp_all add: sort_values_def)

lemma final_df_filter:
  "filter (\<lambda>r. (asset_id r, channel_id r) = p) (final_df all_results) =
     (case find (\<lambda>r. (asset_id r, channel_id r) = p) (concat all_results) of
        None \<Rightarrow> [] | Some r \<Rightarrow> [r])"
  by (simp add: final_df_def sort_values_filter drop_duplicates_filter sort_values_short
      split: option.split)

lemma distinct_map_filter_le1:
  assumes "\<And>p. length (filter (\<lambda>r. f r = p) xs) \<le> 1"
  shows "distinct (map f xs)"
  using assms
proof (induction xs)
  case Nil
  then show ?case by simp
next
  case (Cons x xs)
  have one: "length (filter (\<lambda>r. f r = f x) xs) = 0"
    using Cons.prems [of "f x"] by simp
  then have "f x \<notin> f ` set xs"
    by (auto simp: filter_empty_conv)
  moreover have "distinct (map f xs)"
  proof (rule Cons.IH)
    fix p
    show "length (filter (\<lambda>r. f r = p) xs) \<le> 1"
      using Cons.prems [of p] by (simp split: if_splits)
  qed
  ultimately show ?case by simp
qed

lemma final_df_distinct: "distinct (map (\<lambda>r. (asset_id r, channel_id r)) (final_df all_results))"
  by (rule distinct_map_filter_le1) (simp add: final_df_filter split: option.split)

lemma final_df_sorted:
  "sorted (map (\<lambda>r. (na_last (channel_name r), asset_id r)) (final_df all_results))"
  by (simp add: final_df_def sort_values_def)

lemma final_df_example:
  "final_df [[\<lparr>asset_id = lit ''2'', channel_id = c1, channel_name = Some (lit ''B'')\<rparr>,
              \<lparr>asset_id = lit ''1'', channel_id = c2, channel_name = Some (lit ''A'')\<rparr>,
              \<lparr>asset_id = lit ''3'', channel_id = c3, channel_name = Some (lit ''A'')\<rparr>]] =
     [\<lparr>asset_id = lit ''1'', channel_id = c2, channel_name = Some (lit ''A'')\<rparr>,
      \<lparr>asset_id = lit ''3'', channel_id = c3, channel_name = Some (lit ''A'')\<rparr>,
      \<lparr>asset_id = lit ''2'', channel_id = c1, channel_name = Some (lit ''B'')\<rparr>]"
  by (simp add: final_df_def drop_duplicates_def sort_values_def na_last_def lit_def)


text \<open>
  Claim C3. The final table is the concatenation of the per-file results in processing
  order, with duplicates on (Asset ID, Channel ID) dropped and the rest sorted: it is
  ascending in (Channel Name, Asset ID); for every pair it holds exactly the first record
  of the concatenation that has this pair, and nothing when there is none, so that a pair
  found in several files gives one record; and the three records with names B, A, A and
  asset ids 2, 1, 3 come out as (1, A), (3, A), (2, B).
\<close>

theorem final_df_policy:
  "final_df all_results = sort_values (drop_duplicates (concat all_results))
   \<and> sorted (map (\<lambda>r. (na_last (channel_name r), asset_id r)) (final_df all_results))
   \<and> distinct (map (\<lambda>r. (asset_id r, channel_id r)) (final_df all_results))
   \<and> (\<forall>p. filter (\<lambda>r. (asset_id r, channel_id r) = p) (final_df all_results) =
          (case find (\<lambda>r. (asset_id r, channel_id r) = p) (concat all_results) of
             None \<Rightarrow> [] | Some r \<Rightarrow> [r]))
   \<and> (\<forall>r \<in> set (concat all_results).
         length (filter (\<lambda>s. (asset_id s, channel_id s) = (asset_id r, channel_id r))
                   (final_df all_results)) = 1)
   \<and> map (\<lambda>r. (asset_id r, channel_name r))
         (final_df [[\<lparr>asset_id = lit ''2'', channel_id = c1, channel_name = Some (lit ''B'')\<rparr>,
                     \<lparr>asset_id = lit ''1'', channel_id = c2, channel_name = Some (lit ''A'')\<rparr>,
                     \<lparr>asset_id = lit ''3'', channel_id = c3, channel_name = Some (lit ''A'')\<rparr>]])
       = [(lit ''1'', Some (lit ''A'')), (lit ''3'', Some (lit ''A'')), (lit ''2'', Some (lit ''B''))]"
proof (intro conjI allI ballI)
  show "final_df all_results = sort_values (drop_duplicates (concat all_results))"
    by (simp add: final_df_def)
  show "sorted (map (\<lambda>r. (na_last (channel_name r), asset_id r)) (final_df all_results))"
    by (rule final_df_sorted)
  show "distinct (map (\<lambda>r. (asset_id r, channel_id r)) (final_df all_results))"
    by (rule final_df_distinct)
  show "filter (\<lambda>r. (asset_id r, channel_id r) = p) (final_df all_results) =
          (case find (\<lambda>r. (asset_id r, channel_id r) = p) (concat all_results) of
             None \<Rightarrow> [] | Some r \<Rightarrow> [r])" for p
    by (rule final_df_filter)
  show "length (filter (\<lambda>s. (asset_id s, channel_id s) = (asset_id r, channel_id r))
                   (final_df all_results)) = 1"
    if "r \<in> set (concat all_results)" for r
  proof -
    from that have "find (\<lambda>s. (asset_id s, channel_id s) = (asset_id r, channel_id r))
        (concat all_results) \<noteq> None"
      by (simp only: find_None_iff) blast
    then obtain y where "find (\<lambda>s. (asset_id s, channel_id s) = (asset_id r, channel_id r))
        (concat all_results) = Some y"
      by blast
    then have "filter (\<lambda>s. (asset_id s, channel_id s) = (asset_id r, channel_id r))
        (final_df all_results) = [y]"
      by (simp only: final_df_filter option.case)
    then show ?thesis by simp
  qed
  show "map (\<lambda>r. (asset_id r, channel_name r))
         (final_df [[\<lparr>asset_id = lit ''2'', channel_id = c1, channel_name = Some (lit ''B'')\<rparr>,
                     \<lparr>asset_id = lit ''1'', channel_id = c2, channel_name = Some (lit ''A'')\<rparr>,
                     \<lparr>asset_id = lit ''3'', channel_id = c3, channel_name = Some (lit ''A'')\<rparr>]])
       = [(lit ''1'', Some (lit ''A'')), (lit ''3'', Some (lit ''A'')), (lit ''2'', Some (lit ''B''))]"
    by (simp add: final_df_example)
qed

theorem final_df_policy_witness:
  "\<lparr>asset_id = lit ''A1'', channel_id = lit ''UC1'', channel_name = Some (lit ''Alpha'')\<rparr>
     \<in> set (concat
         [[\<lparr>asset_id = lit ''A1'', channel_id = lit ''UC1'', channel_name = Some (lit ''Alpha'')\<rparr>],
          [\<lparr>asset_id = lit ''A0'', channel_id = lit ''UC2'', channel_name = Some (lit ''Alpha'')\<rparr>,
           \<lparr>asset_id = lit ''A1'', channel_id = lit ''UC1'', channel_name = Some (lit ''Alpha'')\<rparr>]])
   \<and> length (filter (\<lambda>s. (asset_id s, channel_id s) = (lit ''A1'', lit ''UC1''))
       (final_df
         [[\<lparr>asset_id = lit ''A1'', channel_id = lit ''UC1'', channel_name = Some (lit ''Alpha'')\<rparr>],
          [\<lparr>asset_id = lit ''A0'', channel_id = lit ''UC2'', channel_name = Some (lit ''Alpha'')\<rparr>,
           \<lparr>asset_id = lit ''A1'', channel_id = lit ''UC1'', channel_name = Some (lit ''Alpha'')\<rparr>]]))
      = 1"
proof -
  let ?r = "\<lparr>asset_id = lit ''A1'', channel_id = lit ''UC1'', channel_name = Some (lit ''Alpha'')\<rparr>"
  let ?files = "[[?r],
          [\<lparr>asset_id = lit ''A0'', channel_id = lit ''UC2'', channel_name = Some (lit ''Alpha'')\<rparr>,
           ?r]]"
  have m: "?r \<in> set (concat ?files)" by simp
  from final_df_policy [of ?files] 
  have "\<forall>r \<in> set (concat ?files).
         length (filter (\<lambda>s. (asset_id s, channel_id s) = (asset_id r, channel_id r))
                   (final_df ?files)) = 1"
    by blast
  from this m
  have "length (filter (\<lambda>s. (asset_id s, channel_id s) = (asset_id ?r, channel_id ?r))
                   (final_df ?files)) = 1"
    by (rule bspec)
  with m show ?thesis by simp
qed


section \<open>Properties of the chunk reader and of the loop over the files\<close>

lemma raised_first_attempt:
  "raised (first_attempt reader reader2) =
     (case raised reader of None \<Rightarrow> None | Some e \<Rightarrow> raised reader2)"
  by (induction reader) simp_all

lemma yielded_first_attempt:
  "yielded (first_attempt reader reader2) =
     (case raised reader of None \<Rightarrow> yielded reader | Some e \<Rightarrow> yielded reader @ yielded reader2)"
  by (induction reader) (simp_all split: option.split)









section \<open>Properties of the script\<close>

lemma str_nat_MAX_CSV_FILES: "str_nat MAX_CSV_FILES = lit ''12''"
  by (simp add: MAX_CSV_FILES_def str_nat.simps lit_def)

lemma script_too_many_csvs:
  "MAX_CSV_FILES < length (uploaded_csvs u) \<Longrightarrow>
   script u =
     ([St_error (lit ''Maximum '' @ str_nat MAX_CSV_FILES
         @ lit '' CSV files allowed. You selected '' @ str_nat (length (uploaded_csvs u))
         @ lit ''.'')], None)"
  by (auto simp: script_def)

lemma script_zip_too_many:
  assumes "length (uploaded_csvs u) \<le> MAX_CSV_FILES"
    and "uploaded_zip u = Some zip_bytes"
    and "extract_csv_filelikes_from_zip zip_bytes = Inr extracted"
    and "MAX_CSV_FILES < length extracted"
  shows "script u =
     ([St_error (lit ''ZIP contains '' @ str_nat (length extracted)
         @ lit '' CSVs. Maximum allowed: '' @ str_nat MAX_CSV_FILES @ lit ''.'')], None)"
proof -
  from assms(4) have "extracted \<noteq> []" by auto
  with assms show ?thesis
    by (simp add: script_def input_csv_items_def)
qed

lemma script_zip_no_csv:
  assumes "length (uploaded_csvs u) \<le> MAX_CSV_FILES"
    and "uploaded_zip u = Some zip_bytes"
    and "extract_csv_filelikes_from_zip zip_bytes = Inr []"
  shows "script u = ([St_error (lit ''The ZIP file contains no .csv files.'')], None)"
  using assms by (simp add: script_def input_csv_items_def)

lemmas script_eval =
  script_def input_csv_items_def extract_csv_filelikes_from_zip_def is_dir_def basename_def
  startswith_def endswith_def generate_mapping_def process_csv_for_channel_assets_def
  iter_chunks_with_fallback_def final_df_def drop_duplicates_def sort_values_def na_last_def
  MAX_CSV_FILES_def str_nat.simps

text \<open>
  Claim C7. With more than 12 directly uploaded files the run ends at once with the one
  error call of the cap check. With an archive whose extraction gives no entry, or more
  than 12 entries, the run ends with one error call as well, whatever else was uploaded:
  no file is processed and no table is produced.
\<close>

theorem cap_enforced:
  "(MAX_CSV_FILES < length (uploaded_csvs u) \<longrightarrow>
      script u =
        ([St_error (lit ''Maximum '' @ str_nat MAX_CSV_FILES
            @ lit '' CSV files allowed. You selected '' @ str_nat (length (uploaded_csvs u))
            @ lit ''.'')], None))
   \<and> (uploaded_zip u = Some zip_bytes
        \<and> extract_csv_filelikes_from_zip zip_bytes = Inr extracted
        \<and> (extracted = [] \<or> MAX_CSV_FILES < length extracted) \<longrightarrow>
        (\<exists>message. script u = ([St_error message], None)))
   \<and> (length (uploaded_csvs u) \<le> MAX_CSV_FILES
        \<and> uploaded_zip u = Some zip_bytes
        \<and> extract_csv_filelikes_from_zip zip_bytes = Inr extracted
        \<and> MAX_CSV_FILES < length extracted \<longrightarrow>
        script u =
          ([St_error (lit ''ZIP contains '' @ str_nat (length extracted)
              @ lit '' CSVs. Maximum allowed: '' @ str_nat MAX_CSV_FILES @ lit ''.'')], None))
   \<and> (length (uploaded_csvs u) \<le> MAX_CSV_FILES
        \<and> uploaded_zip u = Some zip_bytes
        \<and> extract_csv_filelikes_from_zip zip_bytes = Inr [] \<longrightarrow>
        script u = ([St_error (lit ''The ZIP file contains no .csv files.'')], None))"
proof (intro conjI impI)
  assume "MAX_CSV_FILES < length (uploaded_csvs u)"
  then show "script u =
        ([St_error (lit ''Maximum '' @ str_nat MAX_CSV_FILES
            @ lit '' CSV files allowed. You selected '' @ str_nat (length (uploaded_csvs u))
            @ lit ''.'')], None)"
    by (rule script_too_many_csvs)
next
  assume a: "uploaded_zip u = Some zip_bytes
        \<and> extract_csv_filelikes_from_zip zip_bytes = Inr extracted
        \<and> (extracted = [] \<or> MAX_CSV_FILES < length extracted)"
  show "\<exists>message. script u = ([St_error message], None)"
  proof (cases "MAX_CSV_FILES < length (uploaded_csvs u)")
    case True
    then show ?thesis using script_too_many_csvs by blast
  next
    case False
    then have few: "length (uploaded_csvs u) \<le> MAX_CSV_FILES" by simp
    from a consider "extracted = []" | "MAX_CSV_FILES < length extracted" by blast
    then show ?thesis
    proof cases
      case 1
      with a few show ?thesis using script_zip_no_csv by blast
    next
      case 2
      with a few show ?thesis using script_zip_too_many by blast
    qed
  qed
next
  assume "length (uploaded_csvs u) \<le> MAX_CSV_FILES
        \<and> uploaded_zip u = Some zip_bytes
        \<and> extract_csv_filelikes_from_zip zip_bytes = Inr extracted
        \<and> MAX_CSV_FILES < length extracted"
  then show "script u =
          ([St_error (lit ''ZIP contains '' @ str_nat (length extracted)
              @ lit '' CSVs. Maximum allowed: '' @ str_nat MAX_CSV_FILES @ lit ''.'')], None)"
    using script_zip_too_many by blast
next
  assume "length (uploaded_csvs u) \<le> MAX_CSV_FILES
        \<and> uploaded_zip u = Some zip_bytes
        \<and> extract_csv_filelikes_from_zip zip_bytes = Inr []"
  then show "script u = ([St_error (lit ''The ZIP file contains no .csv files.'')], None)"
    using script_zip_no_csv by blast
qed

lemma generate_mapping_csvs:
  "generate_mapping (u\<lparr>uploaded_csvs := csvs\<rparr>) items = generate_mapping u items"
  by (simp add: generate_mapping_def)

lemma input_csv_items_zip:
  "uploaded_zip u \<noteq> None \<Longrightarrow>
   input_csv_items (u\<lparr>uploaded_csvs := csvs\<rparr>) = input_csv_items u"
  by (auto simp: input_csv_items_def)

text \<open>
  Claim C8, as the script has it. When an archive is supplied together with at most 12
  directly uploaded CSV files, the whole outcome of the run (the calls made and the final
  table) is the one the archive alone gives: the direct uploads have no effect. The cap
  check on the direct uploads comes first in the script, so more than 12 of them end the
  run whether or not an archive is supplied.
\<close>

theorem archive_takes_precedence:
  "uploaded_zip u \<noteq> None \<and> length csvs \<le> MAX_CSV_FILES \<longrightarrow>
     script (u\<lparr>uploaded_csvs := csvs\<rparr>) = script (u\<lparr>uploaded_csvs := []\<rparr>)"
  by (simp add: script_def generate_mapping_csvs input_csv_items_zip
      split: sum.split prod.split)


theorem cap_enforced_witness:
  "MAX_CSV_FILES < length (uploaded_csvs
      \<lparr>uploaded_excel = None, uploaded_csvs = [(lit ''c01.csv'', \<lparr>c_comma = Yield \<lparr>shape1 = 1, rows = [[Some (lit ''x'')]]\<rparr> Stop, python_sniffed = Yield \<lparr>shape1 = 1, rows = [[Some (lit ''x'')]]\<rparr> Stop\<rparr>),
      (lit ''c02.csv'', \<lparr>c_comma = Yield \<lparr>shape1 = 1, rows = [[Some (lit ''x'')]]\<rparr> Stop, python_sniffed = Yield \<lparr>shape1 = 1, rows = [[Some (lit ''x'')]]\<rparr> Stop\<rparr>),
      (lit ''c03.csv'', \<lparr>c_comma = Yield \<lparr>shape1 = 1, rows = [[Some (lit ''x'')]]\<rparr> Stop, python_sniffed = Yield \<lparr>shape1 = 1, rows = [[Some (lit ''x'')]]\<rparr> Stop\<rparr>),
      (lit ''c04.csv'', \<lparr>c_comma = Yield \<lparr>shape1 = 1, rows = [[Some (lit ''x'')]]\<rparr> Stop, python_sniffed = Yield \<lparr>shape1 = 1, rows = [[Some (lit ''x'')]]\<rparr> Stop\<rparr>),
      (lit ''c05.csv'', \<lparr>c_comma = Yield \<lparr>shape1 = 1, rows = [[Some (lit ''x'')]]\<rparr> Stop, python_sniffed = Yield \<lparr>shape1 = 1, rows = [[Some (lit ''x'')]]\<rparr> Stop\<rparr>),
      (lit ''c06.csv'', \<lparr>c_comma = Yield \<lparr>shape1 = 1, rows = [[Some (lit ''x'')]]\<rparr> Stop, python_sniffed = Yield \<lparr>shape1 = 1, rows = [[Some (lit ''x'')]]\<rparr> Stop\<rparr>),
      (lit ''c07.csv'', \<lparr>c_comma = Yield \<lparr>shape1 = 1, rows = [[Some (lit ''x'')]]\<rparr> Stop, python_sniffed = Yield \<lparr>shape1 = 1, rows = [[Some (lit ''x'')]]\<rparr> Stop\<rparr>),
      (lit ''c08.csv'', \<lparr>c_comma = Yield \<lparr>shape1 = 1, rows = [[Some (lit ''x'')]]\<rparr> Stop, python_sniffed = Yield \<lparr>shape1 = 1, rows = [[Some (lit ''x'')]]\<rparr> Stop\<rparr>),
      (lit ''c09.csv'', \<lparr>c_comma = Yield \<lparr>shape1 = 1, rows = [[Some (lit ''x'')]]\<rparr> Stop, python_sniffed = Yield \<lparr>shape1 = 1, rows = [[Some (lit ''x'')]]\<rparr> Stop\<rparr>),
      (lit ''c10.csv'', \<lparr>c_comma = Yield \<lparr>shape1 = 1, rows = [[Some (lit ''x'')]]\<rparr> Stop, python_sniffed = Yield \<lparr>shape1 = 1, rows = [[Some (lit ''x'')]]\<rparr> Stop\<rparr>),
      (lit ''c11.csv'', \<lparr>c_comma = Yield \<lparr>shape1 = 1, rows = [[Some (lit ''x'')]]\<rparr> Stop, python_sniffed = Yield \<lparr>shape1 = 1, rows = [[Some (lit ''x'')]]\<rparr> Stop\<rparr>),
      (lit ''c12.csv'', \<lparr>c_comma = Yield \<lparr>shape1 = 1, rows = [[Some (lit ''x'')]]\<rparr> Stop, python_sniffed = Yield \<lparr>shape1 = 1, rows = [[Some (lit ''x'')]]\<rparr> Stop\<rparr>),
      (lit ''c13.csv'', \<lparr>c_comma = Yield \<lparr>shape1 = 1, rows = [[Some (lit ''x'')]]\<rparr> Stop, python_sniffed = Yield \<lparr>shape1 = 1, rows = [[Some (lit ''x'')]]\<rparr> Stop\<rparr>)], uploaded_zip = None, generate = True\<rparr>)
   \<and> script \<lparr>uploaded_excel = None, uploaded_csvs = [(lit ''c01.csv'', \<lparr>c_comma = Yield \<lparr>shape1 = 1, rows = [[Some (lit ''x'')]]\<rparr> Stop, python_sniffed = Yield \<lparr>shape1 = 1, rows = [[Some (lit ''x'')]]\<rparr> Stop\<rparr>),
      (lit ''c02.csv'', \<lparr>c_comma = Yield \<lparr>shape1 = 1, rows = [[Some (lit ''x'')]]\<rparr> Stop, python_sniffed = Yield \<lparr>shape1 = 1, rows = [[Some (lit ''x'')]]\<rparr> Stop\<rparr>),
      (lit ''c03.csv'', \<lparr>c_comma = Yield \<lparr>shape1 = 1, rows = [[Some (lit ''x'')]]\<rparr> Stop, python_sniffed = Yield \<lparr>shape1 = 1, rows = [[Some (lit ''x'')]]\<rparr> Stop\<rparr>),
      (lit ''c04.csv'', \<lparr>c_comma = Yield \<lparr>shape1 = 1, rows = [[Some (lit ''x'')]]\<rparr> Stop, python_sniffed = Yield \<lparr>shape1 = 1, rows = [[Some (lit ''x'')]]\<rparr> Stop\<rparr>),
      (lit ''c05.csv'', \<lparr>c_comma = Yield \<lparr>shape1 = 1, rows = [[Some (lit ''x'')]]\<rparr> Stop, python_sniffed = Yield \<lparr>shape1 = 1, rows = [[Some (lit ''x'')]]\<rparr> Stop\<rparr>),
      (lit ''c06.csv'', \<lparr>c_comma = Yield \<lparr>shape1 = 1, rows = [[Some (lit ''x'')]]\<rparr> Stop, python_sniffed = Yield \<lparr>shape1 = 1, rows = [[Some (lit ''x'')]]\<rparr> Stop\<rparr>),
      (lit ''c07.csv'', \<lparr>c_comma = Yield \<lparr>shape1 = 1, rows = [[Some (lit ''x'')]]\<rparr> Stop, python_sniffed = Yield \<lparr>shape1 = 1, rows = [[Some (lit ''x'')]]\<rparr> Stop\<rparr>),
      (lit ''c08.csv'', \<lparr>c_comma = Yield \<lparr>shape1 = 1, rows = [[Some (lit ''x'')]]\<rparr> Stop, python_sniffed = Yield \<lparr>shape1 = 1, rows = [[Some (lit ''x'')]]\<rparr> Stop\<rparr>),
      (lit ''c09.csv'', \<lparr>c_comma = Yield \<lparr>shape1 = 1, rows = [[Some (lit ''x'')]]\<rparr> Stop, python_sniffed = Yield \<lparr>shape1 = 1, rows = [[Some (lit ''x'')]]\<rparr> Stop\<rparr>),
      (lit ''c10.csv'', \<lparr>c_comma = Yield \<lparr>shape1 = 1, rows = [[Some (lit ''x'')]]\<rparr> Stop, python_sniffed = Yield \<lparr>shape1 = 1, rows = [[Some (lit ''x'')]]\<rparr> Stop\<rparr>),
      (lit ''c11.csv'', \<lparr>c_comma = Yield \<lparr>shape1 = 1, rows = [[Some (lit ''x'')]]\<rparr> Stop, python_sniffed = Yield \<lparr>shape1 = 1, rows = [[Some (lit ''x'')]]\<rparr> Stop\<rparr>),
      (lit ''c12.csv'', \<lparr>c_comma = Yield \<lparr>shape1 = 1, rows = [[Some (lit ''x'')]]\<rparr> Stop, python_sniffed = Yield \<lparr>shape1 = 1, rows = [[Some (lit ''x'')]]\<rparr> Stop\<rparr>),
      (lit ''c13.csv'', \<lparr>c_comma = Yield \<lparr>shape1 = 1, rows = [[Some (lit ''x'')]]\<rparr> Stop, python_sniffed = Yield \<lparr>shape1 = 1, rows = [[Some (lit ''x'')]]\<rparr> Stop\<rparr>)], uploaded_zip = None, generate = True\<rparr>
       = ([St_error (lit ''Maximum 12 CSV files allowed. You selected 13.'')], None)
   \<and> extract_csv_filelikes_from_zip (Inr [\<lparr>filename = lit ''c01.csv'', read = Inr \<lparr>c_comma = Yield \<lparr>shape1 = 1, rows = [[Some (lit ''x'')]]\<rparr> Stop, python_sniffed = Yield \<lparr>shape1 = 1, rows = [[Some (lit ''x'')]]\<rparr> Stop\<rparr>\<rparr>,
      \<lparr>filename = lit ''c02.csv'', read = Inr \<lparr>c_comma = Yield \<lparr>shape1 = 1, rows = [[Some (lit ''x'')]]\<rparr> Stop, python_sniffed = Yield \<lparr>shape1 = 1, rows = [[Some (lit ''x'')]]\<rparr> Stop\<rparr>\<rparr>,
      \<lparr>filename = lit ''c03.csv'', read = Inr \<lparr>c_comma = Yield \<lparr>shape1 = 1, rows = [[Some (lit ''x'')]]\<rparr> Stop, python_sniffed = Yield \<lparr>shape1 = 1, rows = [[Some (lit ''x'')]]\<rparr> Stop\<rparr>\<rparr>,
      \<lparr>filename = lit ''c04.csv'', read = Inr \<lparr>c_comma = Yield \<lparr>shape1 = 1, rows = [[Some (lit ''x'')]]\<rparr> Stop, python_sniffed = Yield \<lparr>shape1 = 1, rows = [[Some (lit ''x'')]]\<rparr> Stop\<rparr>\<rparr>,
      \<lparr>filename = lit ''c05.csv'', read = Inr \<lparr>c_comma = Yield \<lparr>shape1 = 1, rows = [[Some (lit ''x'')]]\<rparr> Stop, python_sniffed = Yield \<lparr>shape1 = 1, rows = [[Some (lit ''x'')]]\<rparr> Stop\<rparr>\<rparr>,
      \<lparr>filename = lit ''c06.csv'', read = Inr \<lparr>c_comma = Yield \<lparr>shape1 = 1, rows = [[Some (lit ''x'')]]\<rparr> Stop, python_sniffed = Yield \<lparr>shape1 = 1, rows = [[Some (lit ''x'')]]\<rparr> Stop\<rparr>\<rparr>,
      \<lparr>filename = lit ''c07.csv'', read = Inr \<lparr>c_comma = Yield \<lparr>shape1 = 1, rows = [[Some (lit ''x'')]]\<rparr> Stop, python_sniffed = Yield \<lparr>shape1 = 1, rows = [[Some (lit ''x'')]]\<rparr> Stop\<rparr>\<rparr>,
      \<lparr>filename = lit ''c08.csv'', read = Inr \<lparr>c_comma = Yield \<lparr>shape1 = 1, rows = [[Some (lit ''x'')]]\<rparr> Stop, python_sniffed = Yield \<lparr>shape1 = 1, rows = [[Some (lit ''x'')]]\<rparr> Stop\<rparr>\<rparr>,
      \<lparr>filename = lit ''c09.csv'', read = Inr \<lparr>c_comma = Yield \<lparr>shape1 = 1, rows = [[Some (lit ''x'')]]\<rparr> Stop, python_sniffed = Yield \<lparr>shape1 = 1, rows = [[Some (lit ''x'')]]\<rparr> Stop\<rparr>\<rparr>,
      \<lparr>filename = lit ''c10.csv'', read = Inr \<lparr>c_comma = Yield \<lparr>shape1 = 1, rows = [[Some (lit ''x'')]]\<rparr> Stop, python_sniffed = Yield \<lparr>shape1 = 1, rows = [[Some (lit ''x'')]]\<rparr> Stop\<rparr>\<rparr>,
      \<lparr>filename = lit ''c11.csv'', read = Inr \<lparr>c_comma = Yield \<lparr>shape1 = 1, rows = [[Some (lit ''x'')]]\<rparr> Stop, python_sniffed = Yield \<lparr>shape1 = 1, rows = [[Some (lit ''x'')]]\<rparr> Stop\<rparr>\<rparr>,
      \<lparr>filename = lit ''c12.csv'', read = Inr \<lparr>c_comma = Yield \<lparr>shape1 = 1, rows = [[Some (lit ''x'')]]\<rparr> Stop, python_sniffed = Yield \<lparr>shape1 = 1, rows = [[Some (lit ''x'')]]\<rparr> Stop\<rparr>\<rparr>,
      \<lparr>filename = lit ''c13.csv'', read = Inr \<lparr>c_comma = Yield \<lparr>shape1 = 1, rows = [[Some (lit ''x'')]]\<rparr> Stop, python_sniffed = Yield \<lparr>shape1 = 1, rows = [[Some (lit ''x'')]]\<rparr> Stop\<rparr>\<rparr>]) = Inr [(lit ''c01.csv'', \<lparr>c_comma = Yield \<lparr>shape1 = 1, rows = [[Some (lit ''x'')]]\<rparr> Stop, python_sniffed = Yield \<lparr>shape1 = 1, rows = [[Some (lit ''x'')]]\<rparr> Stop\<rparr>),
      (lit ''c02.csv'', \<lparr>c_comma = Yield \<lparr>shape1 = 1, rows = [[Some (lit ''x'')]]\<rparr> Stop, python_sniffed = Yield \<lparr>shape1 = 1, rows = [[Some (lit ''x'')]]\<rparr> Stop\<rparr>),
      (lit ''c03.csv'', \<lparr>c_comma = Yield \<lparr>shape1 = 1, rows = [[Some (lit ''x'')]]\<rparr> Stop, python_sniffed = Yield \<lparr>shape1 = 1, rows = [[Some (lit ''x'')]]\<rparr> Stop\<rparr>),
      (lit ''c04.csv'', \<lparr>c_comma = Yield \<lparr>shape1 = 1, rows = [[Some (lit ''x'')]]\<rparr> Stop, python_sniffed = Yield \<lparr>shape1 = 1, rows = [[Some (lit ''x'')]]\<rparr> Stop\<rparr>),
      (lit ''c05.csv'', \<lparr>c_comma = Yield \<lparr>shape1 = 1, rows = [[Some (lit ''x'')]]\<rparr> Stop, python_sniffed = Yield \<lparr>shape1 = 1, rows = [[Some (lit ''x'')]]\<rparr> Stop\<rparr>),
      (lit ''c06.csv'', \<lparr>c_comma = Yield \<lparr>shape1 = 1, rows = [[Some (lit ''x'')]]\<rparr> Stop, python_sniffed = Yield \<lparr>shape1 = 1, rows = [[Some (lit ''x'')]]\<rparr> Stop\<rparr>),
      (lit ''c07.csv'', \<lparr>c_comma = Yield \<lparr>shape1 = 1, rows = [[Some (lit ''x'')]]\<rparr> Stop, python_sniffed = Yield \<lparr>shape1 = 1, rows = [[Some (lit ''x'')]]\<rparr> Stop\<rparr>),
      (lit ''c08.csv'', \<lparr>c_comma = Yield \<lparr>shape1 = 1, rows = [[Some (lit ''x'')]]\<rparr> Stop, python_sniffed = Yield \<lparr>shape1 = 1, rows = [[Some (lit ''x'')]]\<rparr> Stop\<rparr>),
      (lit ''c09.csv'', \<lparr>c_comma = Yield \<lparr>shape1 = 1, rows = [[Some (lit ''x'')]]\<rparr> Stop, python_sniffed = Yield \<lparr>shape1 = 1, rows = [[Some (lit ''x'')]]\<rparr> Stop\<rparr>),
      (lit ''c10.csv'', \<lparr>c_comma = Yield \<lparr>shape1 = 1, rows = [[Some (lit ''x'')]]\<rparr> Stop, python_sniffed = Yield \<lparr>shape1 = 1, rows = [[Some (lit ''x'')]]\<rparr> Stop\<rparr>),
      (lit ''c11.csv'', \<lparr>c_comma = Yield \<lparr>shape1 = 1, rows = [[Some (lit ''x'')]]\<rparr> Stop, python_sniffed = Yield \<lparr>shape1 = 1, rows = [[Some (lit ''x'')]]\<rparr> Stop\<rparr>),
      (lit ''c12.csv'', \<lparr>c_comma = Yield \<lparr>shape1 = 1, rows = [[Some (lit ''x'')]]\<rparr> Stop, python_sniffed = Yield \<lparr>shape1 = 1, rows = [[Some (lit ''x'')]]\<rparr> Stop\<rparr>),
      (lit ''c13.csv'', \<lparr>c_comma = Yield \<lparr>shape1 = 1, rows = [[Some (lit ''x'')]]\<rparr> Stop, python_sniffed = Yield \<lparr>shape1 = 1, rows = [[Some (lit ''x'')]]\<rparr> Stop\<rparr>)]
   \<and> script \<lparr>uploaded_excel = None, uploaded_csvs = [], uploaded_zip = Some (Inr [\<lparr>filename = lit ''c01.csv'', read = Inr \<lparr>c_comma = Yield \<lparr>shape1 = 1, rows = [[Some (lit ''x'')]]\<rparr> Stop, python_sniffed = Yield \<lparr>shape1 = 1, rows = [[Some (lit ''x'')]]\<rparr> Stop\<rparr>\<rparr>,
      \<lparr>filename = lit ''c02.csv'', read = Inr \<lparr>c_comma = Yield \<lparr>shape1 = 1, rows = [[Some (lit ''x'')]]\<rparr> Stop, python_sniffed = Yield \<lparr>shape1 = 1, rows = [[Some (lit ''x'')]]\<rparr> Stop\<rparr>\<rparr>,
      \<lparr>filename = lit ''c03.csv'', read = Inr \<lparr>c_comma = Yield \<lparr>shape1 = 1, rows = [[Some (lit ''x'')]]\<rparr> Stop, python_sniffed = Yield \<lparr>shape1 = 1, rows = [[Some (lit ''x'')]]\<rparr> Stop\<rparr>\<rparr>,
      \<lparr>filename = lit ''c04.csv'', read = Inr \<lparr>c_comma = Yield \<lparr>shape1 = 1, rows = [[Some (lit ''x'')]]\<rparr> Stop, python_sniffed = Yield \<lparr>shape1 = 1, rows = [[Some (lit ''x'')]]\<rparr> Stop\<rparr>\<rparr>,
      \<lparr>filename = lit ''c05.csv'', read = Inr \<lparr>c_comma = Yield \<lparr>shape1 = 1, rows = [[Some (lit ''x'')]]\<rparr> Stop, python_sniffed = Yield \<lparr>shape1 = 1, rows = [[Some (lit ''x'')]]\<rparr> Stop\<rparr>\<rparr>,
      \<lparr>filename = lit ''c06.csv'', read = Inr \<lparr>c_comma = Yield \<lparr>shape1 = 1, rows = [[Some (lit ''x'')]]\<rparr> Stop, python_sniffed = Yield \<lparr>shape1 = 1, rows = [[Some (lit ''x'')]]\<rparr> Stop\<rparr>\<rparr>,
      \<lparr>filename = lit ''c07.csv'', read = Inr \<lparr>c_comma = Yield \<lparr>shape1 = 1, rows = [[Some (lit ''x'')]]\<rparr> Stop, python_sniffed = Yield \<lparr>shape1 = 1, rows = [[Some (lit ''x'')]]\<rparr> Stop\<rparr>\<rparr>,
      \<lparr>filename = lit ''c08.csv'', read = Inr \<lparr>c_comma = Yield \<lparr>shape1 = 1, rows = [[Some (lit ''x'')]]\<rparr> Stop, python_sniffed = Yield \<lparr>shape1 = 1, rows = [[Some (lit ''x'')]]\<rparr> Stop\<rparr>\<rparr>,
      \<lparr>filename = lit ''c09.csv'', read = Inr \<lparr>c_comma = Yield \<lparr>shape1 = 1, rows = [[Some (lit ''x'')]]\<rparr> Stop, python_sniffed = Yield \<lparr>shape1 = 1, rows = [[Some (lit ''x'')]]\<rparr> Stop\<rparr>\<rparr>,
      \<lparr>filename = lit ''c10.csv'', read = Inr \<lparr>c_comma = Yield \<lparr>shape1 = 1, rows = [[Some (lit ''x'')]]\<rparr> Stop, python_sniffed = Yield \<lparr>shape1 = 1, rows = [[Some (lit ''x'')]]\<rparr> Stop\<rparr>\<rparr>,
      \<lparr>filename = lit ''c11.csv'', read = Inr \<lparr>c_comma = Yield \<lparr>shape1 = 1, rows = [[Some (lit ''x'')]]\<rparr> Stop, python_sniffed = Yield \<lparr>shape1 = 1, rows = [[Some (lit ''x'')]]\<rparr> Stop\<rparr>\<rparr>,
      \<lparr>filename = lit ''c12.csv'', read = Inr \<lparr>c_comma = Yield \<lparr>shape1 = 1, rows = [[Some (lit ''x'')]]\<rparr> Stop, python_sniffed = Yield \<lparr>shape1 = 1, rows = [[Some (lit ''x'')]]\<rparr> Stop\<rparr>\<rparr>,
      \<lparr>filename = lit ''c13.csv'', read = Inr \<lparr>c_comma = Yield \<lparr>shape1 = 1, rows = [[Some (lit ''x'')]]\<rparr> Stop, python_sniffed = Yield \<lparr>shape1 = 1, rows = [[Some (lit ''x'')]]\<rparr> Stop\<rparr>\<rparr>]),
         generate = True\<rparr>
       = ([St_error (lit ''ZIP contains 13 CSVs. Maximum allowed: 12.'')], None)
   \<and> extract_csv_filelikes_from_zip
         (Inr [\<lparr>filename = lit ''notes/readme.txt'', read = Inr \<lparr>c_comma = Yield \<lparr>shape1 = 1, rows = [[Some (lit ''x'')]]\<rparr> Stop, python_sniffed = Yield \<lparr>shape1 = 1, rows = [[Some (lit ''x'')]]\<rparr> Stop\<rparr>\<rparr>]) = Inr []
   \<and> script \<lparr>uploaded_excel = None, uploaded_csvs = [],
         uploaded_zip = Some (Inr [\<lparr>filename = lit ''notes/readme.txt'', read = Inr \<lparr>c_comma = Yield \<lparr>shape1 = 1, rows = [[Some (lit ''x'')]]\<rparr> Stop, python_sniffed = Yield \<lparr>shape1 = 1, rows = [[Some (lit ''x'')]]\<rparr> Stop\<rparr>\<rparr>]),
         generate = True\<rparr>
       = ([St_error (lit ''The ZIP file contains no .csv files.'')], None)"
proof -
  let ?csvs = "[(lit ''c01.csv'', \<lparr>c_comma = Yield \<lparr>shape1 = 1, rows = [[Some (lit ''x'')]]\<rparr> Stop, python_sniffed = Yield \<lparr>shape1 = 1, rows = [[Some (lit ''x'')]]\<rparr> Stop\<rparr>),
      (lit ''c02.csv'', \<lparr>c_comma = Yield \<lparr>shape1 = 1, rows = [[Some (lit ''x'')]]\<rparr> Stop, python_sniffed = Yield \<lparr>shape1 = 1, rows = [[Some (lit ''x'')]]\<rparr> Stop\<rparr>),
      (lit ''c03.csv'', \<lparr>c_comma = Yield \<lparr>shape1 = 1, rows = [[Some (lit ''x'')]]\<rparr> Stop, python_sniffed = Yield \<lparr>shape1 = 1, rows = [[Some (lit ''x'')]]\<rparr> Stop\<rparr>),
      (lit ''c04.csv'', \<lparr>c_comma = Yield \<lparr>shape1 = 1, rows = [[Some (lit ''x'')]]\<rparr> Stop, python_sniffed = Yield \<lparr>shape1 = 1, rows = [[Some (lit ''x'')]]\<rparr> Stop\<rparr>),
      (lit ''c05.csv'', \<lparr>c_comma = Yield \<lparr>shape1 = 1, rows = [[Some (lit ''x'')]]\<rparr> Stop, python_sniffed = Yield \<lparr>shape1 = 1, rows = [[Some (lit ''x'')]]\<rparr> Stop\<rparr>),
      (lit ''c06.csv'', \<lparr>c_comma = Yield \<lparr>shape1 = 1, rows = [[Some (lit ''x'')]]\<rparr> Stop, python_sniffed = Yield \<lparr>shape1 = 1, rows = [[Some (lit ''x'')]]\<rparr> Stop\<rparr>),
      (lit ''c07.csv'', \<lparr>c_comma = Yield \<lparr>shape1 = 1, rows = [[Some (lit ''x'')]]\<rparr> Stop, python_sniffed = Yield \<lparr>shape1 = 1, rows = [[Some (lit ''x'')]]\<rparr> Stop\<rparr>),
      (lit ''c08.csv'', \<lparr>c_comma = Yield \<lparr>shape1 = 1, rows = [[Some (lit ''x'')]]\<rparr> Stop, python_sniffed = Yield \<lparr>shape1 = 1, rows = [[Some (lit ''x'')]]\<rparr> Stop\<rparr>),
      (lit ''c09.csv'', \<lparr>c_comma = Yield \<lparr>shape1 = 1, rows = [[Some (lit ''x'')]]\<rparr> Stop, python_sniffed = Yield \<lparr>shape1 = 1, rows = [[Some (lit ''x'')]]\<rparr> Stop\<rparr>),
      (lit ''c10.csv'', \<lparr>c_comma = Yield \<lparr>shape1 = 1, rows = [[Some (lit ''x'')]]\<rparr> Stop, python_sniffed = Yield \<lparr>shape1 = 1, rows = [[Some (lit ''x'')]]\<rparr> Stop\<rparr>),
      (lit ''c11.csv'', \<lparr>c_comma = Yield \<lparr>shape1 = 1, rows = [[Some (lit ''x'')]]\<rparr> Stop, python_sniffed = Yield \<lparr>shape1 = 1, rows = [[Some (lit ''x'')]]\<rparr> Stop\<rparr>),
      (lit ''c12.csv'', \<lparr>c_comma = Yield \<lparr>shape1 = 1, rows = [[Some (lit ''x'')]]\<rparr> Stop, python_sniffed = Yield \<lparr>shape1 = 1, rows = [[Some (lit ''x'')]]\<rparr> Stop\<rparr>),
      (lit ''c13.csv'', \<lparr>c_comma = Yield \<lparr>shape1 = 1, rows = [[Some (lit ''x'')]]\<rparr> Stop, python_sniffed = Yield \<lparr>shape1 = 1, rows = [[Some (lit ''x'')]]\<rparr> Stop\<rparr>)]"
  let ?zip = "Inr [\<lparr>filename = lit ''c01.csv'', read = Inr \<lparr>c_comma = Yield \<lparr>shape1 = 1, rows = [[Some (lit ''x'')]]\<rparr> Stop, python_sniffed = Yield \<lparr>shape1 = 1, rows = [[Some (lit ''x'')]]\<rparr> Stop\<rparr>\<rparr>,
      \<lparr>filename = lit ''c02.csv'', read = Inr \<lparr>c_comma = Yield \<lparr>shape1 = 1, rows = [[Some (lit ''x'')]]\<rparr> Stop, python_sniffed = Yield \<lparr>shape1 = 1, rows = [[Some (lit ''x'')]]\<rparr> Stop\<rparr>\<rparr>,
      \<lparr>filename = lit ''c03.csv'', read = Inr \<lparr>c_comma = Yield \<lparr>shape1 = 1, rows = [[Some (lit ''x'')]]\<rparr> Stop, python_sniffed = Yield \<lparr>shape1 = 1, rows = [[Some (lit ''x'')]]\<rparr> Stop\<rparr>\<rparr>,
      \<lparr>filename = lit ''c04.csv'', read = Inr \<lparr>c_comma = Yield \<lparr>shape1 = 1, rows = [[Some (lit ''x'')]]\<rparr> Stop, python_sniffed = Yield \<lparr>shape1 = 1, rows = [[Some (lit ''x'')]]\<rparr> Stop\<rparr>\<rparr>,
      \<lparr>filename = lit ''c05.csv'', read = Inr \<lparr>c_comma = Yield \<lparr>shape1 = 1, rows = [[Some (lit ''x'')]]\<rparr> Stop, python_sniffed = Yield \<lparr>shape1 = 1, rows = [[Some (lit ''x'')]]\<rparr> Stop\<rparr>\<rparr>,
      \<lparr>filename = lit ''c06.csv'', read = Inr \<lparr>c_comma = Yield \<lparr>shape1 = 1, rows = [[Some (lit ''x'')]]\<rparr> Stop, python_sniffed = Yield \<lparr>shape1 = 1, rows = [[Some (lit ''x'')]]\<rparr> Stop\<rparr>\<rparr>,
      \<lparr>filename = lit ''c07.csv'', read = Inr \<lparr>c_comma = Yield \<lparr>shape1 = 1, rows = [[Some (lit ''x'')]]\<rparr> Stop, python_sniffed = Yield \<lparr>shape1 = 1, rows = [[Some (lit ''x'')]]\<rparr> Stop\<rparr>\<rparr>,
      \<lparr>filename = lit ''c08.csv'', read = Inr \<lparr>c_comma = Yield \<lparr>shape1 = 1, rows = [[Some (lit ''x'')]]\<rparr> Stop, python_sniffed = Yield \<lparr>shape1 = 1, rows = [[Some (lit ''x'')]]\<rparr> Stop\<rparr>\<rparr>,
      \<lparr>filename = lit ''c09.csv'', read = Inr \<lparr>c_comma = Yield \<lparr>shape1 = 1, rows = [[Some (lit ''x'')]]\<rparr> Stop, python_sniffed = Yield \<lparr>shape1 = 1, rows = [[Some (lit ''x'')]]\<rparr> Stop\<rparr>\<rparr>,
      \<lparr>filename = lit ''c10.csv'', read = Inr \<lparr>c_comma = Yield \<lparr>shape1 = 1, rows = [[Some (lit ''x'')]]\<rparr> Stop, python_sniffed = Yield \<lparr>shape1 = 1, rows = [[Some (lit ''x'')]]\<rparr> Stop\<rparr>\<rparr>,
      \<lparr>filename = lit ''c11.csv'', read = Inr \<lparr>c_comma = Yield \<lparr>shape1 = 1, rows = [[Some (lit ''x'')]]\<rparr> Stop, python_sniffed = Yield \<lparr>shape1 = 1, rows = [[Some (lit ''x'')]]\<rparr> Stop\<rparr>\<rparr>,
      \<lparr>filename = lit ''c12.csv'', read = Inr \<lparr>c_comma = Yield \<lparr>shape1 = 1, rows = [[Some (lit ''x'')]]\<rparr> Stop, python_sniffed = Yield \<lparr>shape1 = 1, rows = [[Some (lit ''x'')]]\<rparr> Stop\<rparr>\<rparr>,
      \<lparr>filename = lit ''c13.csv'', read = Inr \<lparr>c_comma = Yield \<lparr>shape1 = 1, rows = [[Some (lit ''x'')]]\<rparr> Stop, python_sniffed = Yield \<lparr>shape1 = 1, rows = [[Some (lit ''x'')]]\<rparr> Stop\<rparr>\<rparr>] :: zip_file"
  let ?txt = "Inr [\<lparr>filename = lit ''notes/readme.txt'', read = Inr \<lparr>c_comma = Yield \<lparr>shape1 = 1, rows = [[Some (lit ''x'')]]\<rparr> Stop, python_sniffed = Yield \<lparr>shape1 = 1, rows = [[Some (lit ''x'')]]\<rparr> Stop\<rparr>\<rparr>] :: zip_file"
  let ?direct = "\<lparr>uploaded_excel = None, uploaded_csvs = ?csvs, uploaded_zip = None,
                   generate = True\<rparr>"
  let ?archive = "\<lparr>uploaded_excel = None, uploaded_csvs = [], uploaded_zip = Some ?zip,
                    generate = True\<rparr>"
  let ?no_csv = "\<lparr>uploaded_excel = None, uploaded_csvs = [], uploaded_zip = Some ?txt,
                   generate = True\<rparr>"
  have many: "MAX_CSV_FILES < length (uploaded_csvs ?direct)"
    by (simp add: MAX_CSV_FILES_def)
  have extracted: "extract_csv_filelikes_from_zip ?zip = Inr ?csvs"
    by (simp add: extract_csv_filelikes_from_zip_def is_dir_def basename_def startswith_def
        endswith_def lit_def lower_def lower_cp_def)
  have none: "extract_csv_filelikes_from_zip ?txt = Inr []"
    by (simp add: extract_csv_filelikes_from_zip_def is_dir_def basename_def startswith_def
        endswith_def lit_def lower_def lower_cp_def)
  have long: "MAX_CSV_FILES < length ?csvs" by (simp add: MAX_CSV_FILES_def)
  from cap_enforced [of ?direct] many
  have "script ?direct =
        ([St_error (lit ''Maximum '' @ str_nat MAX_CSV_FILES
            @ lit '' CSV files allowed. You selected '' @ str_nat (length (uploaded_csvs ?direct))
            @ lit ''.'')], None)"
    by blast
  then have first: "script ?direct =
      ([St_error (lit ''Maximum 12 CSV files allowed. You selected 13.'')], None)"
    by (simp add: MAX_CSV_FILES_def str_nat.simps lit_def)
  from cap_enforced [of ?archive ?zip ?csvs] extracted long
  have "script ?archive =
          ([St_error (lit ''ZIP contains '' @ str_nat (length ?csvs)
              @ lit '' CSVs. Maximum allowed: '' @ str_nat MAX_CSV_FILES @ lit ''.'')], None)"
    by (simp add: MAX_CSV_FILES_def)
  then have second: "script ?archive =
      ([St_error (lit ''ZIP contains 13 CSVs. Maximum allowed: 12.'')], None)"
    by (simp add: MAX_CSV_FILES_def str_nat.simps lit_def)
  from cap_enforced [of ?no_csv ?txt "[]"] none
  have third: "script ?no_csv = ([St_error (lit ''The ZIP file contains no .csv files.'')], None)"
    by (simp add: MAX_CSV_FILES_def)
  from many first extracted second none third show ?thesis by blast
qed

theorem archive_takes_precedence_witness:
  "uploaded_zip \<lparr>uploaded_excel = Some (Inr \<lparr>shape1 = 2, rows = [[Some (lit ''UC1''), Some (lit ''Alpha'')]]\<rparr>), uploaded_csvs = [],
       uploaded_zip = Some (Inr [\<lparr>filename = lit ''data/report.csv'', read = Inr \<lparr>c_comma = Yield \<lparr>shape1 = 7, rows = [[None, None, None, Some (lit ''A1''), None, None, Some (lit ''UC1'')]]\<rparr> Stop, python_sniffed = Yield \<lparr>shape1 = 7, rows = [[None, None, None, Some (lit ''A1''), None, None, Some (lit ''UC1'')]]\<rparr> Stop\<rparr>\<rparr>]),
       generate = True\<rparr> \<noteq> None
   \<and> length [(lit ''c01.csv'', \<lparr>c_comma = Yield \<lparr>shape1 = 1, rows = [[Some (lit ''x'')]]\<rparr> Stop, python_sniffed = Yield \<lparr>shape1 = 1, rows = [[Some (lit ''x'')]]\<rparr> Stop\<rparr>)] \<le> MAX_CSV_FILES
   \<and> script \<lparr>uploaded_excel = Some (Inr \<lparr>shape1 = 2, rows = [[Some (lit ''UC1''), Some (lit ''Alpha'')]]\<rparr>), uploaded_csvs = [(lit ''c01.csv'', \<lparr>c_comma = Yield \<lparr>shape1 = 1, rows = [[Some (lit ''x'')]]\<rparr> Stop, python_sniffed = Yield \<lparr>shape1 = 1, rows = [[Some (lit ''x'')]]\<rparr> Stop\<rparr>)],
         uploaded_zip = Some (Inr [\<lparr>filename = lit ''data/report.csv'', read = Inr \<lparr>c_comma = Yield \<lparr>shape1 = 7, rows = [[None, None, None, Some (lit ''A1''), None, None, Some (lit ''UC1'')]]\<rparr> Stop, python_sniffed = Yield \<lparr>shape1 = 7, rows = [[None, None, None, Some (lit ''A1''), None, None, Some (lit ''UC1'')]]\<rparr> Stop\<rparr>\<rparr>]),
         generate = True\<rparr>
     = script \<lparr>uploaded_excel = Some (Inr \<lparr>shape1 = 2, rows = [[Some (lit ''UC1''), Some (lit ''Alpha'')]]\<rparr>), uploaded_csvs = [],
         uploaded_zip = Some (Inr [\<lparr>filename = lit ''data/report.csv'', read = Inr \<lparr>c_comma = Yield \<lparr>shape1 = 7, rows = [[None, None, None, Some (lit ''A1''), None, None, Some (lit ''UC1'')]]\<rparr> Stop, python_sniffed = Yield \<lparr>shape1 = 7, rows = [[None, None, None, Some (lit ''A1''), None, None, Some (lit ''UC1'')]]\<rparr> Stop\<rparr>\<rparr>]),
         generate = True\<rparr>"
proof -
  let ?u = "\<lparr>uploaded_excel = Some (Inr \<lparr>shape1 = 2, rows = [[Some (lit ''UC1''), Some (lit ''Alpha'')]]\<rparr>), uploaded_csvs = [],
       uploaded_zip = Some (Inr [\<lparr>filename = lit ''data/report.csv'', read = Inr \<lparr>c_comma = Yield \<lparr>shape1 = 7, rows = [[None, None, None, Some (lit ''A1''), None, None, Some (lit ''UC1'')]]\<rparr> Stop, python_sniffed = Yield \<lparr>shape1 = 7, rows = [[None, None, None, Some (lit ''A1''), None, None, Some (lit ''UC1'')]]\<rparr> Stop\<rparr>\<rparr>]),
       generate = True\<rparr>"
  have z: "uploaded_zip ?u \<noteq> None" by simp
  have few: "length [(lit ''c01.csv'', \<lparr>c_comma = Yield \<lparr>shape1 = 1, rows = [[Some (lit ''x'')]]\<rparr> Stop, python_sniffed = Yield \<lparr>shape1 = 1, rows = [[Some (lit ''x'')]]\<rparr> Stop\<rparr>)] \<le> MAX_CSV_FILES"
    by (simp add: MAX_CSV_FILES_def)
  from archive_takes_precedence [of ?u "[(lit ''c01.csv'', \<lparr>c_comma = Yield \<lparr>shape1 = 1, rows = [[Some (lit ''x'')]]\<rparr> Stop, python_sniffed = Yield \<lparr>shape1 = 1, rows = [[Some (lit ''x'')]]\<rparr> Stop\<rparr>)]"] z few
  have "script (?u\<lparr>uploaded_csvs := [(lit ''c01.csv'', \<lparr>c_comma = Yield \<lparr>shape1 = 1, rows = [[Some (lit ''x'')]]\<rparr> Stop, python_sniffed = Yield \<lparr>shape1 = 1, rows = [[Some (lit ''x'')]]\<rparr> Stop\<rparr>)]\<rparr>) = script (?u\<lparr>uploaded_csvs := []\<rparr>)"
    by blast
  then show ?thesis using z few by simp
qed

theorem archive_precedence_counterexample:
  "script \<lparr>uploaded_excel = Some (Inr \<lparr>shape1 = 2, rows = [[Some (lit ''UC1''), Some (lit ''Alpha'')]]\<rparr>), uploaded_csvs = [(lit ''c01.csv'', \<lparr>c_comma = Yield \<lparr>shape1 = 1, rows = [[Some (lit ''x'')]]\<rparr> Stop, python_sniffed = Yield \<lparr>shape1 = 1, rows = [[Some (lit ''x'')]]\<rparr> Stop\<rparr>),
      (lit ''c02.csv'', \<lparr>c_comma = Yield \<lparr>shape1 = 1, rows = [[Some (lit ''x'')]]\<rparr> Stop, python_sniffed = Yield \<lparr>shape1 = 1, rows = [[Some (lit ''x'')]]\<rparr> Stop\<rparr>),
      (lit ''c03.csv'', \<lparr>c_comma = Yield \<lparr>shape1 = 1, rows = [[Some (lit ''x'')]]\<rparr> Stop, python_sniffed = Yield \<lparr>shape1 = 1, rows = [[Some (lit ''x'')]]\<rparr> Stop\<rparr>),
      (lit ''c04.csv'', \<lparr>c_comma = Yield \<lparr>shape1 = 1, rows = [[Some (lit ''x'')]]\<rparr> Stop, python_sniffed = Yield \<lparr>shape1 = 1, rows = [[Some (lit ''x'')]]\<rparr> Stop\<rparr>),
      (lit ''c05.csv'', \<lparr>c_comma = Yield \<lparr>shape1 = 1, rows = [[Some (lit ''x'')]]\<rparr> Stop, python_sniffed = Yield \<lparr>shape1 = 1, rows = [[Some (lit ''x'')]]\<rparr> Stop\<rparr>),
      (lit ''c06.csv'', \<lparr>c_comma = Yield \<lparr>shape1 = 1, rows = [[Some (lit ''x'')]]\<rparr> Stop, python_sniffed = Yield \<lparr>shape1 = 1, rows = [[Some (lit ''x'')]]\<rparr> Stop\<rparr>),
      (lit ''c07.csv'', \<lparr>c_comma = Yield \<lparr>shape1 = 1, rows = [[Some (lit ''x'')]]\<rparr> Stop, python_sniffed = Yield \<lparr>shape1 = 1, rows = [[Some (lit ''x'')]]\<rparr> Stop\<rparr>),
      (lit ''c08.csv'', \<lparr>c_comma = Yield \<lparr>shape1 = 1, rows = [[Some (lit ''x'')]]\<rparr> Stop, python_sniffed = Yield \<lparr>shape1 = 1, rows = [[Some (lit ''x'')]]\<rparr> Stop\<rparr>),
      (lit ''c09.csv'', \<lparr>c_comma = Yield \<lparr>shape1 = 1, rows = [[Some (lit ''x'')]]\<rparr> Stop, python_sniffed = Yield \<lparr>shape1 = 1, rows = [[Some (lit ''x'')]]\<rparr> Stop\<rparr>),
      (lit ''c10.csv'', \<lparr>c_comma = Yield \<lparr>shape1 = 1, rows = [[Some (lit ''x'')]]\<rparr> Stop, python_sniffed = Yield \<lparr>shape1 = 1, rows = [[Some (lit ''x'')]]\<rparr> Stop\<rparr>),
      (lit ''c11.csv'', \<lparr>c_comma = Yield \<lparr>shape1 = 1, rows = [[Some (lit ''x'')]]\<rparr> Stop, python_sniffed = Yield \<lparr>shape1 = 1, rows = [[Some (lit ''x'')]]\<rparr> Stop\<rparr>),
      (lit ''c12.csv'', \<lparr>c_comma = Yield \<lparr>shape1 = 1, rows = [[Some (lit ''x'')]]\<rparr> Stop, python_sniffed = Yield \<lparr>shape1 = 1, rows = [[Some (lit ''x'')]]\<rparr> Stop\<rparr>),
      (lit ''c13.csv'', \<lparr>c_comma = Yield \<lparr>shape1 = 1, rows = [[Some (lit ''x'')]]\<rparr> Stop, python_sniffed = Yield \<lparr>shape1 = 1, rows = [[Some (lit ''x'')]]\<rparr> Stop\<rparr>)],
      uploaded_zip = Some (Inr [\<lparr>filename = lit ''data/report.csv'', read = Inr \<lparr>c_comma = Yield \<lparr>shape1 = 7, rows = [[None, None, None, Some (lit ''A1''), None, None, Some (lit ''UC1'')]]\<rparr> Stop, python_sniffed = Yield \<lparr>shape1 = 7, rows = [[None, None, None, Some (lit ''A1''), None, None, Some (lit ''UC1'')]]\<rparr> Stop\<rparr>\<rparr>]),
      generate = True\<rparr>
     = ([St_error (lit ''Maximum 12 CSV files allowed. You selected 13.'')], None)
   \<and> script \<lparr>uploaded_excel = Some (Inr \<lparr>shape1 = 2, rows = [[Some (lit ''UC1''), Some (lit ''Alpha'')]]\<rparr>), uploaded_csvs = [],
      uploaded_zip = Some (Inr [\<lparr>filename = lit ''data/report.csv'', read = Inr \<lparr>c_comma = Yield \<lparr>shape1 = 7, rows = [[None, None, None, Some (lit ''A1''), None, None, Some (lit ''UC1'')]]\<rparr> Stop, python_sniffed = Yield \<lparr>shape1 = 7, rows = [[None, None, None, Some (lit ''A1''), None, None, Some (lit ''UC1'')]]\<rparr> Stop\<rparr>\<rparr>]),
      generate = True\<rparr>
     = ([St_info (lit ''Found 1 CSV files in ZIP.''),
         St_success (lit ''Loaded 1 channel IDs with names.''),
         St_write ([9989] @ lit '' Found 1 matches in report.csv''),
         St_success (lit ''### Found 1 unique Asset-Channel mappings'')],
        Some [\<lparr>asset_id = lit ''A1'', channel_id = lit ''UC1'',
                channel_name = Some (lit ''Alpha'')\<rparr>])
   \<and> script \<lparr>uploaded_excel = Some (Inr \<lparr>shape1 = 2, rows = [[Some (lit ''UC1''), Some (lit ''Alpha'')]]\<rparr>), uploaded_csvs = [(lit ''c01.csv'', \<lparr>c_comma = Yield \<lparr>shape1 = 1, rows = [[Some (lit ''x'')]]\<rparr> Stop, python_sniffed = Yield \<lparr>shape1 = 1, rows = [[Some (lit ''x'')]]\<rparr> Stop\<rparr>),
      (lit ''c02.csv'', \<lparr>c_comma = Yield \<lparr>shape1 = 1, rows = [[Some (lit ''x'')]]\<rparr> Stop, python_sniffed = Yield \<lparr>shape1 = 1, rows = [[Some (lit ''x'')]]\<rparr> Stop\<rparr>),
      (lit ''c03.csv'', \<lparr>c_comma = Yield \<lparr>shape1 = 1, rows = [[Some (lit ''x'')]]\<rparr> Stop, python_sniffed = Yield \<lparr>shape1 = 1, rows = [[Some (lit ''x'')]]\<rparr> Stop\<rparr>),
      (lit ''c04.csv'', \<lparr>c_comma = Yield \<lparr>shape1 = 1, rows = [[Some (lit ''x'')]]\<rparr> Stop, python_sniffed = Yield \<lparr>shape1 = 1, rows = [[Some (lit ''x'')]]\<rparr> Stop\<rparr>),
      (lit ''c05.csv'', \<lparr>c_comma = Yield \<lparr>shape1 = 1, rows = [[Some (lit ''x'')]]\<rparr> Stop, python_sniffed = Yield \<lparr>shape1 = 1, rows = [[Some (lit ''x'')]]\<rparr> Stop\<rparr>),
      (lit ''c06.csv'', \<lparr>c_comma = Yield \<lparr>shape1 = 1, rows = [[Some (lit ''x'')]]\<rparr> Stop, python_sniffed = Yield \<lparr>shape1 = 1, rows = [[Some (lit ''x'')]]\<rparr> Stop\<rparr>),
      (lit ''c07.csv'', \<lparr>c_comma = Yield \<lparr>shape1 = 1, rows = [[Some (lit ''x'')]]\<rparr> Stop, python_sniffed = Yield \<lparr>shape1 = 1, rows = [[Some (lit ''x'')]]\<rparr> Stop\<rparr>),
      (lit ''c08.csv'', \<lparr>c_comma = Yield \<lparr>shape1 = 1, rows = [[Some (lit ''x'')]]\<rparr> Stop, python_sniffed = Yield \<lparr>shape1 = 1, rows = [[Some (lit ''x'')]]\<rparr> Stop\<rparr>),
      (lit ''c09.csv'', \<lparr>c_comma = Yield \<lparr>shape1 = 1, rows = [[Some (lit ''x'')]]\<rparr> Stop, python_sniffed = Yield \<lparr>shape1 = 1, rows = [[Some (lit ''x'')]]\<rparr> Stop\<rparr>),
      (lit ''c10.csv'', \<lparr>c_comma = Yield \<lparr>shape1 = 1, rows = [[Some (lit ''x'')]]\<rparr> Stop, python_sniffed = Yield \<lparr>shape1 = 1, rows = [[Some (lit ''x'')]]\<rparr> Stop\<rparr>),
      (lit ''c11.csv'', \<lparr>c_comma = Yield \<lparr>shape1 = 1, rows = [[Some (lit ''x'')]]\<rparr> Stop, python_sniffed = Yield \<lparr>shape1 = 1, rows = [[Some (lit ''x'')]]\<rparr> Stop\<rparr>),
      (lit ''c12.csv'', \<lparr>c_comma = Yield \<lparr>shape1 = 1, rows = [[Some (lit ''x'')]]\<rparr> Stop, python_sniffed = Yield \<lparr>shape1 = 1, rows = [[Some (lit ''x'')]]\<rparr> Stop\<rparr>),
      (lit ''c13.csv'', \<lparr>c_comma = Yield \<lparr>shape1 = 1, rows = [[Some (lit ''x'')]]\<rparr> Stop, python_sniffed = Yield \<lparr>shape1 = 1, rows = [[Some (lit ''x'')]]\<rparr> Stop\<rparr>)],
      uploaded_zip = Some (Inr [\<lparr>filename = lit ''data/report.csv'', read = Inr \<lparr>c_comma = Yield \<lparr>shape1 = 7, rows = [[None, None, None, Some (lit ''A1''), None, None, Some (lit ''UC1'')]]\<rparr> Stop, python_sniffed = Yield \<lparr>shape1 = 7, rows = [[None, None, None, Some (lit ''A1''), None, None, Some (lit ''UC1'')]]\<rparr> Stop\<rparr>\<rparr>]),
      generate = True\<rparr>
     \<noteq> script \<lparr>uploaded_excel = Some (Inr \<lparr>shape1 = 2, rows = [[Some (lit ''UC1''), Some (lit ''Alpha'')]]\<rparr>), uploaded_csvs = [],
      uploaded_zip = Some (Inr [\<lparr>filename = lit ''data/report.csv'', read = Inr \<lparr>c_comma = Yield \<lparr>shape1 = 7, rows = [[None, None, None, Some (lit ''A1''), None, None, Some (lit ''UC1'')]]\<rparr> Stop, python_sniffed = Yield \<lparr>shape1 = 7, rows = [[None, None, None, Some (lit ''A1''), None, None, Some (lit ''UC1'')]]\<rparr> Stop\<rparr>\<rparr>]),
      generate = True\<rparr>"
proof -
  have with_csvs: "script \<lparr>uploaded_excel = Some (Inr \<lparr>shape1 = 2, rows = [[Some (lit ''UC1''), Some (lit ''Alpha'')]]\<rparr>), uploaded_csvs = [(lit ''c01.csv'', \<lparr>c_comma = Yield \<lparr>shape1 = 1, rows = [[Some (lit ''x'')]]\<rparr> Stop, python_sniffed = Yield \<lparr>shape1 = 1, rows = [[Some (lit ''x'')]]\<rparr> Stop\<rparr>),
      (lit ''c02.csv'', \<lparr>c_comma = Yield \<lparr>shape1 = 1, rows = [[Some (lit ''x'')]]\<rparr> Stop, python_sniffed = Yield \<lparr>shape1 = 1, rows = [[Some (lit ''x'')]]\<rparr> Stop\<rparr>),
      (lit ''c03.csv'', \<lparr>c_comma = Yield \<lparr>shape1 = 1, rows = [[Some (lit ''x'')]]\<rparr> Stop, python_sniffed = Yield \<lparr>shape1 = 1, rows = [[Some (lit ''x'')]]\<rparr> Stop\<rparr>),
      (lit ''c04.csv'', \<lparr>c_comma = Yield \<lparr>shape1 = 1, rows = [[Some (lit ''x'')]]\<rparr> Stop, python_sniffed = Yield \<lparr>shape1 = 1, rows = [[Some (lit ''x'')]]\<rparr> Stop\<rparr>),
      (lit ''c05.csv'', \<lparr>c_comma = Yield \<lparr>shape1 = 1, rows = [[Some (lit ''x'')]]\<rparr> Stop, python_sniffed = Yield \<lparr>shape1 = 1, rows = [[Some (lit ''x'')]]\<rparr> Stop\<rparr>),
      (lit ''c06.csv'', \<lparr>c_comma = Yield \<lparr>shape1 = 1, rows = [[Some (lit ''x'')]]\<rparr> Stop, python_sniffed = Yield \<lparr>shape1 = 1, rows = [[Some (lit ''x'')]]\<rparr> Stop\<rparr>),
      (lit ''c07.csv'', \<lparr>c_comma = Yield \<lparr>shape1 = 1, rows = [[Some (lit ''x'')]]\<rparr> Stop, python_sniffed = Yield \<lparr>shape1 = 1, rows = [[Some (lit ''x'')]]\<rparr> Stop\<rparr>),
      (lit ''c08.csv'', \<lparr>c_comma = Yield \<lparr>shape1 = 1, rows = [[Some (lit ''x'')]]\<rparr> Stop, python_sniffed = Yield \<lparr>shape1 = 1, rows = [[Some (lit ''x'')]]\<rparr> Stop\<rparr>),
      (lit ''c09.csv'', \<lparr>c_comma = Yield \<lparr>shape1 = 1, rows = [[Some (lit ''x'')]]\<rparr> Stop, python_sniffed = Yield \<lparr>shape1 = 1, rows = [[Some (lit ''x'')]]\<rparr> Stop\<rparr>),
      (lit ''c10.csv'', \<lparr>c_comma = Yield \<lparr>shape1 = 1, rows = [[Some (lit ''x'')]]\<rparr> Stop, python_sniffed = Yield \<lparr>shape1 = 1, rows = [[Some (lit ''x'')]]\<rparr> Stop\<rparr>),
      (lit ''c11.csv'', \<lparr>c_comma = Yield \<lparr>shape1 = 1, rows = [[Some (lit ''x'')]]\<rparr> Stop, python_sniffed = Yield \<lparr>shape1 = 1, rows = [[Some (lit ''x'')]]\<rparr> Stop\<rparr>),
      (lit ''c12.csv'', \<lparr>c_comma = Yield \<lparr>shape1 = 1, rows = [[Some (lit ''x'')]]\<rparr> Stop, python_sniffed = Yield \<lparr>shape1 = 1, rows = [[Some (lit ''x'')]]\<rparr> Stop\<rparr>),
      (lit ''c13.csv'', \<lparr>c_comma = Yield \<lparr>shape1 = 1, rows = [[Some (lit ''x'')]]\<rparr> Stop, python_sniffed = Yield \<lparr>shape1 = 1, rows = [[Some (lit ''x'')]]\<rparr> Stop\<rparr>)],
      uploaded_zip = Some (Inr [\<lparr>filename = lit ''data/report.csv'', read = Inr \<lparr>c_comma = Yield \<lparr>shape1 = 7, rows = [[None, None, None, Some (lit ''A1''), None, None, Some (lit ''UC1'')]]\<rparr> Stop, python_sniffed = Yield \<lparr>shape1 = 7, rows = [[None, None, None, Some (lit ''A1''), None, None, Some (lit ''UC1'')]]\<rparr> Stop\<rparr>\<rparr>]),
      generate = True\<rparr>
     = ([St_error (lit ''Maximum 12 CSV files allowed. You selected 13.'')], None)"
    by (simp add: script_def MAX_CSV_FILES_def str_nat.simps lit_def)
  have without_csvs: "script \<lparr>uploaded_excel = Some (Inr \<lparr>shape1 = 2, rows = [[Some (lit ''UC1''), Some (lit ''Alpha'')]]\<rparr>), uploaded_csvs = [],
      uploaded_zip = Some (Inr [\<lparr>filename = lit ''data/report.csv'', read = Inr \<lparr>c_comma = Yield \<lparr>shape1 = 7, rows = [[None, None, None, Some (lit ''A1''), None, None, Some (lit ''UC1'')]]\<rparr> Stop, python_sniffed = Yield \<lparr>shape1 = 7, rows = [[None, None, None, Some (lit ''A1''), None, None, Some (lit ''UC1'')]]\<rparr> Stop\<rparr>\<rparr>]),
      generate = True\<rparr>
     = ([St_info (lit ''Found 1 CSV files in ZIP.''),
         St_success (lit ''Loaded 1 channel IDs with names.''),
         St_write ([9989] @ lit '' Found 1 matches in report.csv''),
         St_success (lit ''### Found 1 unique Asset-Channel mappings'')],
        Some [\<lparr>asset_id = lit ''A1'', channel_id = lit ''UC1'',
                channel_name = Some (lit ''Alpha'')\<rparr>])"
    by (simp add: script_eval matcher_eval loader_eval)
  have "script \<lparr>uploaded_excel = Some (Inr \<lparr>shape1 = 2, rows = [[Some (lit ''UC1''), Some (lit ''Alpha'')]]\<rparr>), uploaded_csvs = [(lit ''c01.csv'', \<lparr>c_comma = Yield \<lparr>shape1 = 1, rows = [[Some (lit ''x'')]]\<rparr> Stop, python_sniffed = Yield \<lparr>shape1 = 1, rows = [[Some (lit ''x'')]]\<rparr> Stop\<rparr>),
      (lit ''c02.csv'', \<lparr>c_comma = Yield \<lparr>shape1 = 1, rows = [[Some (lit ''x'')]]\<rparr> Stop, python_sniffed = Yield \<lparr>shape1 = 1, rows = [[Some (lit ''x'')]]\<rparr> Stop\<rparr>),
      (lit ''c03.csv'', \<lparr>c_comma = Yield \<lparr>shape1 = 1, rows = [[Some (lit ''x'')]]\<rparr> Stop, python_sniffed = Yield \<lparr>shape1 = 1, rows = [[Some (lit ''x'')]]\<rparr> Stop\<rparr>),
      (lit ''c04.csv'', \<lparr>c_comma = Yield \<lparr>shape1 = 1, rows = [[Some (lit ''x'')]]\<rparr> Stop, python_sniffed = Yield \<lparr>shape1 = 1, rows = [[Some (lit ''x'')]]\<rparr> Stop\<rparr>),
      (lit ''c05.csv'', \<lparr>c_comma = Yield \<lparr>shape1 = 1, rows = [[Some (lit ''x'')]]\<rparr> Stop, python_sniffed = Yield \<lparr>shape1 = 1, rows = [[Some (lit ''x'')]]\<rparr> Stop\<rparr>),
      (lit ''c06.csv'', \<lparr>c_comma = Yield \<lparr>shape1 = 1, rows = [[Some (lit ''x'')]]\<rparr> Stop, python_sniffed = Yield \<lparr>shape1 = 1, rows = [[Some (lit ''x'')]]\<rparr> Stop\<rparr>),
      (lit ''c07.csv'', \<lparr>c_comma = Yield \<lparr>shape1 = 1, rows = [[Some (lit ''x'')]]\<rparr> Stop, python_sniffed = Yield \<lparr>shape1 = 1, rows = [[Some (lit ''x'')]]\<rparr> Stop\<rparr>),
      (lit ''c08.csv'', \<lparr>c_comma = Yield \<lparr>shape1 = 1, rows = [[Some (lit ''x'')]]\<rparr> Stop, python_sniffed = Yield \<lparr>shape1 = 1, rows = [[Some (lit ''x'')]]\<rparr> Stop\<rparr>),
      (lit ''c09.csv'', \<lparr>c_comma = Yield \<lparr>shape1 = 1, rows = [[Some (lit ''x'')]]\<rparr> Stop, python_sniffed = Yield \<lparr>shape1 = 1, rows = [[Some (lit ''x'')]]\<rparr> Stop\<rparr>),
      (lit ''c10.csv'', \<lparr>c_comma = Yield \<lparr>shape1 = 1, rows = [[Some (lit ''x'')]]\<rparr> Stop, python_sniffed = Yield \<lparr>shape1 = 1, rows = [[Some (lit ''x'')]]\<rparr> Stop\<rparr>),
      (lit ''c11.csv'', \<lparr>c_comma = Yield \<lparr>shape1 = 1, rows = [[Some (lit ''x'')]]\<rparr> Stop, python_sniffed = Yield \<lparr>shape1 = 1, rows = [[Some (lit ''x'')]]\<rparr> Stop\<rparr>),
      (lit ''c12.csv'', \<lparr>c_comma = Yield \<lparr>shape1 = 1, rows = [[Some (lit ''x'')]]\<rparr> Stop, python_sniffed = Yield \<lparr>shape1 = 1, rows = [[Some (lit ''x'')]]\<rparr> Stop\<rparr>),
      (lit ''c13.csv'', \<lparr>c_comma = Yield \<lparr>shape1 = 1, rows = [[Some (lit ''x'')]]\<rparr> Stop, python_sniffed = Yield \<lparr>shape1 = 1, rows = [[Some (lit ''x'')]]\<rparr> Stop\<rparr>)],
      uploaded_zip = Some (Inr [\<lparr>filename = lit ''data/report.csv'', read = Inr \<lparr>c_comma = Yield \<lparr>shape1 = 7, rows = [[None, None, None, Some (lit ''A1''), None, None, Some (lit ''UC1'')]]\<rparr> Stop, python_sniffed = Yield \<lparr>shape1 = 7, rows = [[None, None, None, Some (lit ''A1''), None, None, Some (lit ''UC1'')]]\<rparr> Stop\<rparr>\<rparr>]),
      generate = True\<rparr>
     \<noteq> script \<lparr>uploaded_excel = Some (Inr \<lparr>shape1 = 2, rows = [[Some (lit ''UC1''), Some (lit ''Alpha'')]]\<rparr>), uploaded_csvs = [],
      uploaded_zip = Some (Inr [\<lparr>filename = lit ''data/report.csv'', read = Inr \<lparr>c_comma = Yield \<lparr>shape1 = 7, rows = [[None, None, None, Some (lit ''A1''), None, None, Some (lit ''UC1'')]]\<rparr> Stop, python_sniffed = Yield \<lparr>shape1 = 7, rows = [[None, None, None, Some (lit ''A1''), None, None, Some (lit ''UC1'')]]\<rparr> Stop\<rparr>\<rparr>]),
      generate = True\<rparr>"
    by (simp only: with_csvs without_csvs) simp
  with with_csvs without_csvs show ?thesis by blast
qed


section \<open>Where the code departs from its description\<close>

lemma first_attempt_clean: "raised reader = None \<Longrightarrow> first_attempt reader reader2 = reader"
  by (induction reader) simp_all

lemma iter_chunks_with_fallback_strict:
  "raised (c_comma file_like) = None \<Longrightarrow>
   iter_chunks_with_fallback file_like = c_comma file_like"
  by (simp add: iter_chunks_with_fallback_def first_attempt_clean)

lemma iter_chunks_with_fallback_yielded:
  "raised (c_comma file_like) = Some e \<Longrightarrow>
   yielded (iter_chunks_with_fallback file_like) =
     yielded (c_comma file_like) @ yielded (python_sniffed file_like)"
  by (simp add: iter_chunks_with_fallback_def yielded_first_attempt)

lemma iter_chunks_with_fallback_rejected:
  "python_sniffed file_like = Raise e \<Longrightarrow>
   yielded (iter_chunks_with_fallback file_like) = yielded (c_comma file_like)
   \<and> raised (iter_chunks_with_fallback file_like) =
       (case raised (c_comma file_like) of None \<Rightarrow> None | Some e1 \<Rightarrow> Some e)"
  by (simp add: iter_chunks_with_fallback_def yielded_first_attempt raised_first_attempt
      split: option.split)

text \<open>
  Claim C1. The fallback reader is built with \<open>low_memory=False\<close>, which pandas refuses
  for the Python engine, so the second pass raises before its first chunk. When the C
  engine raises after its first chunk, the generator has yielded that chunk and then
  raises: the rows after it are never delivered, and the consumer drops the match found
  in the first chunk and reports the file as failed. No row is delivered twice, as the
  second pass yields nothing.
\<close>

theorem iter_chunks_with_fallback_fails:
  "iter_chunks_with_fallback \<lparr>c_comma = Yield \<lparr>shape1 = 7, rows = [[None, None, None, Some (lit ''A1''), None, None, Some (lit ''UC1'')]]\<rparr>
        (Raise (ParserError (lit ''Error tokenizing data. C error: EOF inside string''))),
      python_sniffed = Raise (OtherException (lit ''The '' @ [39] @ lit ''low_memory'' @ [39]
           @ lit '' option is not supported with the '' @ [39] @ lit ''python'' @ [39]
           @ lit '' engine''))\<rparr>
     = Yield \<lparr>shape1 = 7, rows = [[None, None, None, Some (lit ''A1''), None, None, Some (lit ''UC1'')]]\<rparr> (Raise (OtherException (lit ''The '' @ [39] @ lit ''low_memory'' @ [39]
           @ lit '' option is not supported with the '' @ [39] @ lit ''python'' @ [39]
           @ lit '' engine'')))
   \<and> process_csv_for_channel_assets \<lparr>c_comma = Yield \<lparr>shape1 = 7, rows = [[None, None, None, Some (lit ''A1''), None, None, Some (lit ''UC1'')]]\<rparr>
        (Raise (ParserError (lit ''Error tokenizing data. C error: EOF inside string''))),
      python_sniffed = Raise (OtherException (lit ''The '' @ [39] @ lit ''low_memory'' @ [39]
           @ lit '' option is not supported with the '' @ [39] @ lit ''python'' @ [39]
           @ lit '' engine''))\<rparr>
       (lit ''report.csv'') [(lit ''UC1'', lit ''Alpha'')]
     = (None, [St_warning (lit ''Error reading report.csv: '' @ lit ''The '' @ [39] @ lit ''low_memory'' @ [39]
           @ lit '' option is not supported with the '' @ [39] @ lit ''python'' @ [39]
           @ lit '' engine'')])"
proof
  show "iter_chunks_with_fallback \<lparr>c_comma = Yield \<lparr>shape1 = 7, rows = [[None, None, None, Some (lit ''A1''), None, None, Some (lit ''UC1'')]]\<rparr>
        (Raise (ParserError (lit ''Error tokenizing data. C error: EOF inside string''))),
      python_sniffed = Raise (OtherException (lit ''The '' @ [39] @ lit ''low_memory'' @ [39]
           @ lit '' option is not supported with the '' @ [39] @ lit ''python'' @ [39]
           @ lit '' engine''))\<rparr>
     = Yield \<lparr>shape1 = 7, rows = [[None, None, None, Some (lit ''A1''), None, None, Some (lit ''UC1'')]]\<rparr> (Raise (OtherException (lit ''The '' @ [39] @ lit ''low_memory'' @ [39]
           @ lit '' option is not supported with the '' @ [39] @ lit ''python'' @ [39]
           @ lit '' engine'')))"
    by (simp add: iter_chunks_with_fallback_def)
  show "process_csv_for_channel_assets \<lparr>c_comma = Yield \<lparr>shape1 = 7, rows = [[None, None, None, Some (lit ''A1''), None, None, Some (lit ''UC1'')]]\<rparr>
        (Raise (ParserError (lit ''Error tokenizing data. C error: EOF inside string''))),
      python_sniffed = Raise (OtherException (lit ''The '' @ [39] @ lit ''low_memory'' @ [39]
           @ lit '' option is not supported with the '' @ [39] @ lit ''python'' @ [39]
           @ lit '' engine''))\<rparr>
       (lit ''report.csv'') [(lit ''UC1'', lit ''Alpha'')]
     = (None, [St_warning (lit ''Error reading report.csv: '' @ lit ''The '' @ [39] @ lit ''low_memory'' @ [39]
           @ lit '' option is not supported with the '' @ [39] @ lit ''python'' @ [39]
           @ lit '' engine'')])"
    by (simp add: process_csv_for_channel_assets_def iter_chunks_with_fallback_def lit_def)
qed

text \<open>
  Claim C10. The test for macOS metadata looks for \<open>__MACOSX\<close> at the start of the base
  name or after a slash in the name. An entry of a \<open>__MACOSX\<close> folder at the top of the
  archive has neither, so it is extracted, while the same entry one folder deeper is
  skipped.
\<close>

theorem extract_keeps_top_level_macosx:
  "extract_csv_filelikes_from_zip
     (Inr [\<lparr>filename = lit ''__MACOSX/report.csv'', read = Inr \<lparr>c_comma = Yield \<lparr>shape1 = 1, rows = [[Some (lit ''x'')]]\<rparr> Stop, python_sniffed = Yield \<lparr>shape1 = 1, rows = [[Some (lit ''x'')]]\<rparr> Stop\<rparr>\<rparr>,
           \<lparr>filename = lit ''data/__MACOSX/report.csv'', read = Inr \<lparr>c_comma = Yield \<lparr>shape1 = 1, rows = [[Some (lit ''x'')]]\<rparr> Stop, python_sniffed = Yield \<lparr>shape1 = 1, rows = [[Some (lit ''x'')]]\<rparr> Stop\<rparr>\<rparr>])
     = Inr [(lit ''report.csv'', \<lparr>c_comma = Yield \<lparr>shape1 = 1, rows = [[Some (lit ''x'')]]\<rparr> Stop, python_sniffed = Yield \<lparr>shape1 = 1, rows = [[Some (lit ''x'')]]\<rparr> Stop\<rparr>)]"
  by (simp add: extract_csv_filelikes_from_zip_def is_dir_def basename_def startswith_def
      endswith_def lit_def lower_def lower_cp_def)


end
